theory Spec2Isabelle
  imports Main
begin

section \<open>JavaScript values\<close>

text \<open>
  The values the three modules handle. Functions are first-order data: an external
  function is a reference \<open>JFun f\<close> whose behaviour the environment gives, and each closure
  the modules create is a constructor holding what the closure captures:
  \<^item> \<open>JNoop\<close> is the default \<^verbatim>\<open>() => {}\<close> of the Executor constructor;
  \<^item> \<open>JWrapperCb prevCb\<close> is \<^verbatim>\<open>function cb (...args)\<close> of \<^verbatim>\<open>Executor.execute\<close>;
  \<^item> \<open>JHandler a sLogger\<close> is the arrow function \<^verbatim>\<open>(err, ...data) => {...}\<close> of
    \<^verbatim>\<open>mainCall\<close>, capturing the array \<^verbatim>\<open>applyArgs\<close> (at address \<open>a\<close>) and \<^verbatim>\<open>sLogger\<close>.
  Finite numbers are integers; \<open>JNaN\<close> stands for the non-finite numbers.

  An object is \<open>JObj ps\<close>, its enumerable own properties in order, when it has no callable
  \<^verbatim>\<open>toJSON\<close>. An object whose \<^verbatim>\<open>toJSON\<close> is callable (its own or inherited, as a \<^verbatim>\<open>Date\<close>
  has) carries what that method does: \<open>JWithToJSON ps r\<close> when it returns \<open>r\<close>, and
  \<open>JWithThrowingToJSON ps e\<close> when it throws \<open>e\<close>, whatever the key it is given.
\<close>

type_synonym fid = nat
type_synonym addr = nat

datatype jsval =
    JUndefined
  | JNull
  | JBool bool
  | JNum int
  | JNaN
  | JBigInt int
  | JStr string
  | JArr "jsval list"
  | JObj "(string \<times> jsval) list"
  | JError string string
  | JWithToJSON "(string \<times> jsval) list" jsval
  | JWithThrowingToJSON "(string \<times> jsval) list" jsval
  | JFun fid
  | JNoop
  | JWrapperCb jsval
  | JHandler addr jsval
  | JPromise nat
  | JExecPromise

datatype 'a completion = Returned 'a | Thrown jsval

fun typeof :: "jsval \<Rightarrow> string" where
  "typeof JUndefined = ''undefined''"
| "typeof (JBool b) = ''boolean''"
| "typeof (JNum n) = ''number''"
| "typeof JNaN = ''number''"
| "typeof (JBigInt n) = ''bigint''"
| "typeof (JStr s) = ''string''"
| "typeof (JFun f) = ''function''"
| "typeof JNoop = ''function''"
| "typeof (JWrapperCb p) = ''function''"
| "typeof (JHandler a l) = ''function''"
| "typeof v = ''object''"

fun truthy :: "jsval \<Rightarrow> bool" where
  "truthy JUndefined = False"
| "truthy JNull = False"
| "truthy (JBool b) = b"
| "truthy (JNum n) = (n \<noteq> 0)"
| "truthy JNaN = False"
| "truthy (JBigInt n) = (n \<noteq> 0)"
| "truthy (JStr s) = (s \<noteq> [])"
| "truthy v = True"

fun is_promise :: "jsval \<Rightarrow> bool" where
  "is_promise (JPromise p) = True"
| "is_promise JExecPromise = True"
| "is_promise v = False"

definition nth_or_undefined :: "jsval list \<Rightarrow> nat \<Rightarrow> jsval" where
  \<comment> \<open>\<^verbatim>\<open>xs[i]\<close> for \<open>i \<ge> 0\<close>: reading past the end gives \<^verbatim>\<open>undefined\<close>.\<close>
  "nth_or_undefined xs i = (if i < length xs then xs ! i else JUndefined)"

definition last_arg :: "jsval list \<Rightarrow> jsval" where
  \<comment> \<open>\<^verbatim>\<open>payload[payload.length - 1]\<close>: index \<open>-1\<close> of an empty array is \<^verbatim>\<open>undefined\<close>.\<close>
  "last_arg xs = (if xs = [] then JUndefined else last xs)"

section \<open>The snapshot: \<^verbatim>\<open>Tcgen.clonePrimitive\<close>\<close>

text \<open>
  \<^verbatim>\<open>JSON.stringify\<close> followed by \<^verbatim>\<open>JSON.parse\<close>. The text between the two is kept as the
  tree it denotes. \<open>serialize\<close> is ECMAScript's SerializeJSONProperty: it first calls a
  callable \<^verbatim>\<open>toJSON\<close> of the value and goes on with what that returns, which
  \<open>serialize_value\<close> then turns into text without asking for \<^verbatim>\<open>toJSON\<close> again. \<open>None\<close> is
  the result \<^verbatim>\<open>undefined\<close> (for \<^verbatim>\<open>undefined\<close> and functions), a BigInt throws a TypeError, a
  non-finite number becomes \<^verbatim>\<open>null\<close>, an array element without a serialisation becomes
  \<^verbatim>\<open>null\<close>, an object property without one is left out, and an Error or a Promise has no
  enumerable own property.
\<close>

datatype json =
    JsNull
  | JsBool bool
  | JsNum int
  | JsStr string
  | JsArr "json list"
  | JsObj "(string \<times> json) list"

fun serialize :: "jsval \<Rightarrow> (json option) completion"
  and serialize_value :: "jsval \<Rightarrow> (json option) completion"
  and serialize_elems :: "jsval list \<Rightarrow> (json list) completion"
  and serialize_props :: "(string \<times> jsval) list \<Rightarrow> ((string \<times> json) list) completion"
where
  "serialize (JWithToJSON ps r) = serialize_value r"
| "serialize (JWithThrowingToJSON ps e) = Thrown e"
| "serialize v = serialize_value v"
| "serialize_value JUndefined = Returned None"
| "serialize_value JNull = Returned (Some JsNull)"
| "serialize_value (JBool b) = Returned (Some (JsBool b))"
| "serialize_value (JNum n) = Returned (Some (JsNum n))"
| "serialize_value JNaN = Returned (Some JsNull)"
| "serialize_value (JBigInt n) =
     Thrown (JError ''TypeError'' ''Do not know how to serialize a BigInt'')"
| "serialize_value (JStr s) = Returned (Some (JsStr s))"
| "serialize_value (JArr xs) =
     (case serialize_elems xs of Thrown e \<Rightarrow> Thrown e | Returned js \<Rightarrow> Returned (Some (JsArr js)))"
| "serialize_value (JObj ps) =
     (case serialize_props ps of Thrown e \<Rightarrow> Thrown e | Returned js \<Rightarrow> Returned (Some (JsObj js)))"
| "serialize_value (JWithToJSON ps r) =
     (case serialize_props ps of Thrown e \<Rightarrow> Thrown e | Returned js \<Rightarrow> Returned (Some (JsObj js)))"
| "serialize_value (JWithThrowingToJSON ps e) =
     (case serialize_props ps of Thrown e \<Rightarrow> Thrown e | Returned js \<Rightarrow> Returned (Some (JsObj js)))"
| "serialize_value (JError n m) = Returned (Some (JsObj []))"
| "serialize_value (JFun f) = Returned None"
| "serialize_value JNoop = Returned None"
| "serialize_value (JWrapperCb p) = Returned None"
| "serialize_value (JHandler a l) = Returned None"
| "serialize_value (JPromise p) = Returned (Some (JsObj []))"
| "serialize_value JExecPromise = Returned (Some (JsObj []))"
| "serialize_elems [] = Returned []"
| "serialize_elems (x # xs) =
     (case serialize x of
        Thrown e \<Rightarrow> Thrown e
      | Returned j \<Rightarrow>
          (case serialize_elems xs of
             Thrown e \<Rightarrow> Thrown e
           | Returned js \<Rightarrow> Returned ((case j of None \<Rightarrow> JsNull | Some t \<Rightarrow> t) # js)))"
| "serialize_props [] = Returned []"
| "serialize_props (p # ps) =
     (case serialize (snd p) of
        Thrown e \<Rightarrow> Thrown e
      | Returned j \<Rightarrow>
          (case serialize_props ps of
             Thrown e \<Rightarrow> Thrown e
           | Returned js \<Rightarrow> Returned (case j of None \<Rightarrow> js | Some t \<Rightarrow> (fst p, t) # js)))"

fun parse :: "json \<Rightarrow> jsval" where
  "parse JsNull = JNull"
| "parse (JsBool b) = JBool b"
| "parse (JsNum n) = JNum n"
| "parse (JsStr s) = JStr s"
| "parse (JsArr js) = JArr (map parse js)"
| "parse (JsObj ps) = JObj (map (\<lambda>p. (fst p, parse (snd p))) ps)"

definition JSON_stringify :: "jsval \<Rightarrow> (json option) completion" where
  "JSON_stringify input = serialize input"

definition JSON_parse :: "json option \<Rightarrow> jsval completion" where
  \<comment> \<open>\<^verbatim>\<open>JSON.parse(undefined)\<close> parses the text \<^verbatim>\<open>undefined\<close>: a SyntaxError.\<close>
  "JSON_parse text =
     (case text of
        None \<Rightarrow> Thrown (JError ''SyntaxError'' ''Unexpected token u in JSON'')
      | Some t \<Rightarrow> Returned (parse t))"

definition clonePrimitive_try :: "jsval \<Rightarrow> jsval completion" where
  \<comment> \<open>the body of the \<^verbatim>\<open>try\<close> block\<close>
  "clonePrimitive_try input =
     (case JSON_stringify input of
        Thrown e \<Rightarrow> Thrown e
      | Returned text \<Rightarrow> JSON_parse text)"

definition clonePrimitive :: "jsval \<Rightarrow> jsval completion" where
  "clonePrimitive input =
     (case clonePrimitive_try input of
        Returned v \<Rightarrow> Returned v
      | Thrown e \<Rightarrow> Returned JNull)"

definition snapshot :: "jsval \<Rightarrow> jsval" where
  \<comment> \<open>the value a caller of \<^verbatim>\<open>clonePrimitive\<close> goes on with\<close>
  "snapshot input = (case clonePrimitive input of Returned v \<Rightarrow> v | Thrown e \<Rightarrow> JNull)"


text \<open>
  \<open>toJSON_in_data\<close>: no \<open>JObj\<close> inside the value holds a function under the key
  \<^verbatim>\<open>toJSON\<close>; an object with such a method is written \<open>JWithToJSON\<close> or
  \<open>JWithThrowingToJSON\<close>. \<open>without_toJSON\<close>: the same object, its \<^verbatim>\<open>toJSON\<close> not called.
  \<open>stringify_throws\<close> and \<open>stringify_undefined\<close>: \<^verbatim>\<open>JSON.stringify\<close> throws, or gives \<^verbatim>\<open>undefined\<close>.
\<close>

fun toJSON_in_data :: "jsval \<Rightarrow> bool"
  and toJSON_in_data_elems :: "jsval list \<Rightarrow> bool"
  and toJSON_in_data_props :: "(string \<times> jsval) list \<Rightarrow> bool"
where
  "toJSON_in_data (JArr xs) = toJSON_in_data_elems xs"
| "toJSON_in_data (JObj ps) =
     ((case map_of ps ''toJSON'' of Some v \<Rightarrow> typeof v \<noteq> ''function'' | None \<Rightarrow> True)
      \<and> toJSON_in_data_props ps)"
| "toJSON_in_data (JWithToJSON ps r) = (toJSON_in_data_props ps \<and> toJSON_in_data r)"
| "toJSON_in_data (JWithThrowingToJSON ps e) = toJSON_in_data_props ps"
| "toJSON_in_data v = True"
| "toJSON_in_data_elems [] = True"
| "toJSON_in_data_elems (x # xs) = (toJSON_in_data x \<and> toJSON_in_data_elems xs)"
| "toJSON_in_data_props [] = True"
| "toJSON_in_data_props (p # ps) = (toJSON_in_data (snd p) \<and> toJSON_in_data_props ps)"




section \<open>Callables, the world and function calls\<close>

text \<open>
  The callable under test is given by what it does when it is called and when it is
  constructed (\<open>None\<close>: it has no [[Construct]], so \<^verbatim>\<open>new\<close> throws a TypeError). A body is
  a tree of interactions: it returns, throws, or calls one of the arguments it received
  and goes on with what that call returned or threw. An external function (a caller's
  callback, a logger) returns or throws as the environment says.
\<close>

datatype script =
    Return jsval
  | Throw jsval
  | CallArg nat "jsval list" "jsval completion \<Rightarrow> script"

record callable =
  ident :: fid
  call_body :: "jsval list \<Rightarrow> script"
  construct_body :: "(jsval list \<Rightarrow> script) option"

type_synonym env = "fid \<Rightarrow> jsval list \<Rightarrow> jsval completion"

datatype pstate = Pending | Fulfilled jsval | Rejected jsval | Following jsval

datatype event =
    Completion "jsval list"
  | Call fid "jsval list"
  | WrapperCall "jsval list"

text \<open>
  The world: \<open>trace\<close> lists, in order, each invocation of \<^verbatim>\<open>this.outputHandler\<close>
  (\<open>Completion\<close>, with its arguments), of an external function (\<open>Call\<close>) and of the
  wrapping callback (\<open>WrapperCall\<close>); \<open>promise\<close> is the state of \<^verbatim>\<open>prm\<close>; \<open>reactions\<close> is
  the promise the callable returned, once \<^verbatim>\<open>then\<close>/\<^verbatim>\<open>catch\<close> are attached to it; \<open>heap\<close>
  holds the \<^verbatim>\<open>applyArgs\<close> arrays of the interceptors.
\<close>

record world =
  trace :: "event list"
  promise :: pstate
  reactions :: "jsval option"
  heap :: "addr \<Rightarrow> jsval list"
  next_addr :: addr

definition TypeError :: "string \<Rightarrow> jsval" where
  "TypeError msg = JError ''TypeError'' msg"

definition call_ext :: "env \<Rightarrow> jsval \<Rightarrow> jsval list \<Rightarrow> world \<Rightarrow> jsval completion \<times> world" where
  \<comment> \<open>calling a value that is no closure of these modules\<close>
  "call_ext env callee args w =
     (case callee of
        JFun f \<Rightarrow> (env f args, w\<lparr>trace := trace w @ [Call f args]\<rparr>)
      | JNoop \<Rightarrow> (Returned JUndefined, w)
      | _ \<Rightarrow> (Thrown (TypeError ''not a function''), w))"

definition outcome_handler ::
  "env \<Rightarrow> addr \<Rightarrow> jsval \<Rightarrow> jsval list \<Rightarrow> world \<Rightarrow> jsval completion \<times> world" where
  \<comment> \<open>\<^verbatim>\<open>(err, ...data) => {...}\<close> of \<^verbatim>\<open>mainCall\<close>; \<^verbatim>\<open>sLogger.apply\<close> exists on functions only\<close>
  "outcome_handler env applyArgs sLogger hargs w =
     (let err = nth_or_undefined hargs 0;
          data = drop 1 hargs;
          outcome =
            (if truthy err then JObj [(''error'', snapshot err)]
             else JObj [(''output'',
                    snapshot (if length data > 1 then JArr data else nth_or_undefined data 0))]);
          w1 = w\<lparr>heap := (heap w)(applyArgs := heap w applyArgs @ [outcome])\<rparr>
      in if typeof sLogger = ''function''
         then call_ext env sLogger (heap w1 applyArgs) w1
         else (Thrown (TypeError ''sLogger.apply is not a function''), w1))"

definition call_handler :: "env \<Rightarrow> jsval \<Rightarrow> jsval list \<Rightarrow> world \<Rightarrow> jsval completion \<times> world" where
  \<comment> \<open>\<^verbatim>\<open>this.outputHandler(...)\<close>. The wrapping callback is created inside \<^verbatim>\<open>execute\<close>, after
      \<^verbatim>\<open>outputHandler\<close> was set; were it the handler, each would call the other until the
      stack overflows.\<close>
  "call_handler env oh args w =
     (case oh of
        JWrapperCb p \<Rightarrow> (Thrown (JError ''RangeError'' ''Maximum call stack size exceeded''), w)
      | JHandler a sl \<Rightarrow> outcome_handler env a sl args (w\<lparr>trace := trace w @ [Completion args]\<rparr>)
      | JFun f \<Rightarrow> call_ext env oh args (w\<lparr>trace := trace w @ [Completion args]\<rparr>)
      | JNoop \<Rightarrow> call_ext env oh args (w\<lparr>trace := trace w @ [Completion args]\<rparr>)
      | _ \<Rightarrow> (Thrown (TypeError ''this.outputHandler is not a function''), w))"

fun is_thenable :: "jsval \<Rightarrow> bool" where
  \<comment> \<open>a promise, or an object whose \<^verbatim>\<open>then\<close> is a function\<close>
  "is_thenable (JPromise p) = True"
| "is_thenable (JObj ps) =
     (case map_of ps ''then'' of Some v \<Rightarrow> typeof v = ''function'' | None \<Rightarrow> False)"
| "is_thenable (JWithToJSON ps r) =
     (case map_of ps ''then'' of Some v \<Rightarrow> typeof v = ''function'' | None \<Rightarrow> False)"
| "is_thenable (JWithThrowingToJSON ps e) =
     (case map_of ps ''then'' of Some v \<Rightarrow> typeof v = ''function'' | None \<Rightarrow> False)"
| "is_thenable v = False"

definition resolve_promise :: "jsval list \<Rightarrow> world \<Rightarrow> world" where
  \<comment> \<open>\<^verbatim>\<open>resolve(...args)\<close>: the first argument counts and a settled promise stays as it is;
      a thenable given as the value is followed, and the promise itself is a TypeError\<close>
  "resolve_promise args w =
     (if promise w = Pending
      then w\<lparr>promise :=
               (let v = nth_or_undefined args 0
                in if v = JExecPromise
                   then Rejected (TypeError ''Chaining cycle detected for promise'')
                   else if is_thenable v then Following v else Fulfilled v)\<rparr>
      else w)"

definition reject_promise :: "jsval \<Rightarrow> world \<Rightarrow> world" where
  "reject_promise er w = (if promise w = Pending then w\<lparr>promise := Rejected er\<rparr> else w)"

section \<open>The invocation normalizer: \<^verbatim>\<open>Executor\<close>\<close>

record executor =
  method_val :: callable
  construct :: jsval
  isAsync :: jsval
  outputHandler :: jsval
  returnValue :: jsval

definition new_Executor :: "callable \<Rightarrow> jsval \<Rightarrow> jsval \<Rightarrow> jsval \<Rightarrow> executor" where
  \<comment> \<open>\<^verbatim>\<open>constructor (method, outputHandler = () => {}, construct = false, isAsync)\<close>:
      a default applies where the argument is \<^verbatim>\<open>undefined\<close>\<close>
  "new_Executor method_arg outputHandler_arg construct_arg isAsync_arg =
     \<lparr>method_val = method_arg,
      construct = (if construct_arg = JUndefined then JBool False else construct_arg),
      isAsync = isAsync_arg,
      outputHandler = (if outputHandler_arg = JUndefined then JNoop else outputHandler_arg),
      returnValue = JUndefined\<rparr>"

definition resolving :: "env \<Rightarrow> executor \<Rightarrow> jsval list \<Rightarrow> world \<Rightarrow> jsval completion \<times> world" where
  "resolving env this args w =
     (case call_handler env (outputHandler this) (JNull # args) w of
        (Thrown e, w') \<Rightarrow> (Thrown e, w')
      | (Returned r, w') \<Rightarrow> (Returned JUndefined, resolve_promise args w'))"

definition rejecting :: "env \<Rightarrow> executor \<Rightarrow> jsval \<Rightarrow> world \<Rightarrow> jsval completion \<times> world" where
  "rejecting env this er w =
     (case call_handler env (outputHandler this) [er] w of
        (Thrown e, w') \<Rightarrow> (Thrown e, w')
      | (Returned r, w') \<Rightarrow> (Returned JUndefined, reject_promise er w'))"

fun call_value :: "env \<Rightarrow> executor \<Rightarrow> jsval \<Rightarrow> jsval list \<Rightarrow> world \<Rightarrow> jsval completion \<times> world" where
  \<comment> \<open>the first equation is \<^verbatim>\<open>function cb (...args)\<close>, closed over \<open>prevCb\<close>\<close>
  "call_value env this (JWrapperCb prevCb) args w =
     (case (if truthy (nth_or_undefined args 0)
            then rejecting env this (nth_or_undefined args 0) (w\<lparr>trace := trace w @ [WrapperCall args]\<rparr>)
            else resolving env this (drop 1 args) (w\<lparr>trace := trace w @ [WrapperCall args]\<rparr>)) of
        (Thrown e, w') \<Rightarrow> (Thrown e, w')
      | (Returned r, w') \<Rightarrow> call_value env this prevCb args w')"
| "call_value env this (JHandler a sl) args w = outcome_handler env a sl args w"
| "call_value env this callee args w = call_ext env callee args w"

primrec run :: "env \<Rightarrow> executor \<Rightarrow> jsval list \<Rightarrow> script \<Rightarrow> world \<Rightarrow> jsval completion \<times> world" where
  "run env this args (Return v) = (\<lambda>w. (Returned v, w))"
| "run env this args (Throw e) = (\<lambda>w. (Thrown e, w))"
| "run env this args (CallArg i as k) =
     (\<lambda>w. case call_value env this (nth_or_undefined args i) as w of
             (c, w') \<Rightarrow> run env this args (k c) w')"

definition invoke :: "env \<Rightarrow> executor \<Rightarrow> jsval list \<Rightarrow> world \<Rightarrow> jsval completion \<times> world" where
  \<comment> \<open>\<^verbatim>\<open>method(...payload)\<close>\<close>
  "invoke env this payload w = run env this payload (call_body (method_val this) payload) w"

definition construct_new :: "env \<Rightarrow> executor \<Rightarrow> jsval list \<Rightarrow> world \<Rightarrow> jsval completion \<times> world" where
  \<comment> \<open>\<^verbatim>\<open>new (Function.prototype.bind.apply(method, bound))()\<close>: the head of \<open>bound\<close> is the
      \<^verbatim>\<open>this\<close> argument of \<^verbatim>\<open>bind\<close>, which \<^verbatim>\<open>new\<close> ignores; the rest are the arguments\<close>
  "construct_new env this bound w =
     (case construct_body (method_val this) of
        None \<Rightarrow> (Thrown (TypeError ''not a constructor''), w)
      | Some body \<Rightarrow> run env this (drop 1 bound) (body (drop 1 bound)) w)"

definition installs_callback :: "executor \<Rightarrow> jsval list \<Rightarrow> bool" where
  \<comment> \<open>the condition under which \<^verbatim>\<open>returnWithCB\<close> becomes \<^verbatim>\<open>true\<close>\<close>
  "installs_callback this params =
     (isAsync this \<noteq> JBool False \<and> isAsync this \<noteq> JNum 1
      \<and> typeof (last_arg params) = ''function'')"

definition wrapped_payload :: "executor \<Rightarrow> jsval list \<Rightarrow> jsval list" where
  \<comment> \<open>\<^verbatim>\<open>payload\<close> after \<^verbatim>\<open>payload[payload.length - 1] = function cb ...\<close>\<close>
  "wrapped_payload this params =
     (if installs_callback this params
      then params[length params - 1 := JWrapperCb (last_arg params)]
      else params)"

definition attempt ::
  "env \<Rightarrow> executor \<Rightarrow> jsval list \<Rightarrow> world \<Rightarrow> jsval completion \<times> executor \<times> world" where
  \<comment> \<open>the \<^verbatim>\<open>try\<close> block: \<open>Returned ret\<close> when it completes, \<open>Thrown er\<close> when it throws\<close>
  "attempt env this payload w =
     (if truthy (construct this) then
        (if payload \<noteq> [] then
           (case construct_new env this (JNull # payload) w of (c, w') \<Rightarrow> (c, this, w'))
         else
           (case construct_new env this [] w of (c, w') \<Rightarrow> (c, this, w')))
      else
        (case invoke env this payload w of
           (Returned ret, w') \<Rightarrow> (Returned ret, this\<lparr>returnValue := ret\<rparr>, w')
         | (Thrown er, w') \<Rightarrow> (Thrown er, this, w')))"

definition promise_executor ::
  "env \<Rightarrow> executor \<Rightarrow> jsval list \<Rightarrow> world \<Rightarrow> jsval completion \<times> executor \<times> world" where
  \<comment> \<open>the function given to \<^verbatim>\<open>new Promise\<close>\<close>
  "promise_executor env this params w =
     (let returnWithCB = installs_callback this params;
          payload = wrapped_payload this params
      in case attempt env this payload w of
           (Thrown er, this1, w1) \<Rightarrow>
             (case rejecting env this1 er w1 of (c, w2) \<Rightarrow> (c, this1, w2))
         | (Returned ret, this1, w1) \<Rightarrow>
             if returnWithCB then (Returned JUndefined, this1, w1)
             else if isAsync this1 \<noteq> JBool False \<and> is_promise ret
             then (Returned JUndefined, this1, w1\<lparr>reactions := Some ret\<rparr>)
             else (case resolving env this1 [ret] w1 of (c, w2) \<Rightarrow> (c, this1, w2)))"

definition execute ::
  "env \<Rightarrow> executor \<Rightarrow> jsval list \<Rightarrow> world \<Rightarrow> jsval completion \<times> executor \<times> world" where
  \<comment> \<open>\<^verbatim>\<open>new Promise(f)\<close> runs \<open>f\<close> at once and rejects the promise with what \<open>f\<close> throws;
      \<^verbatim>\<open>execute\<close> has no \<^verbatim>\<open>return\<close> statement\<close>
  "execute env this params w =
     (case promise_executor env this params (w\<lparr>promise := Pending, reactions := None\<rparr>) of
        (c, this1, w1) \<Rightarrow>
          (let w2 = (case c of Thrown e \<Rightarrow> reject_promise e w1 | Returned r \<Rightarrow> w1);
               this2 = (if truthy (isAsync this1) then this1\<lparr>returnValue := JExecPromise\<rparr> else this1)
           in (Returned JUndefined, this2, w2)))"


definition Executor_main ::
  "env \<Rightarrow> callable \<Rightarrow> jsval list \<Rightarrow> jsval \<Rightarrow> jsval \<Rightarrow> jsval \<Rightarrow> world
     \<Rightarrow> jsval completion \<times> executor \<times> world" where
  "Executor_main env method_arg params outputHandler_arg construct_arg isAsync_arg w =
     execute env (new_Executor method_arg outputHandler_arg construct_arg isAsync_arg) params w"

section \<open>The call interceptor and the unit instrumenter: \<^verbatim>\<open>Tcgen\<close>\<close>

record interceptor =
  sLogger :: jsval
  ent :: callable
  prop_val :: jsval
  isConstructor :: jsval
  applyArgs :: addr

definition handleFunctionUnderTest ::
  "jsval \<Rightarrow> callable \<Rightarrow> jsval \<Rightarrow> jsval \<Rightarrow> world \<Rightarrow> interceptor \<times> world" where
  \<comment> \<open>\<^verbatim>\<open>handleFunctionUnderTest (sLogger, ent, prop, isConstructor = false)\<close>; an argument the
      caller leaves out is \<^verbatim>\<open>undefined\<close>; \<open>prop_val\<close> is the parameter \<^verbatim>\<open>prop\<close>. The result
      stands for the closure \<^verbatim>\<open>mainCall\<close>. As a value \<open>ent\<close> is a function.\<close>
  "handleFunctionUnderTest sLogger_arg ent_arg prop_arg isConstructor_arg w =
     (let isc = (if isConstructor_arg = JUndefined then JBool False else isConstructor_arg);
          a = next_addr w
      in (\<lparr>sLogger = sLogger_arg, ent = ent_arg, prop_val = prop_arg, isConstructor = isc,
           applyArgs = a\<rparr>,
          w\<lparr>heap := (heap w)(a := [prop_arg, isc, snapshot (JFun (ident ent_arg))]),
            next_addr := Suc a\<rparr>))"

definition mainCall :: "env \<Rightarrow> interceptor \<Rightarrow> jsval list \<Rightarrow> world \<Rightarrow> jsval completion \<times> world" where
  "mainCall env it args w =
     (let w1 = w\<lparr>heap := (heap w)(applyArgs it := heap w (applyArgs it) @ [JArr (map snapshot args)])\<rparr>;
          executor = new_Executor (ent it) (prop_val it) (JHandler (applyArgs it) (sLogger it))
                       (isConstructor it)
      in case execute env executor args w1 of
           (Thrown e, executor1, w2) \<Rightarrow> (Thrown e, w2)
         | (Returned r, executor1, w2) \<Rightarrow> (Returned (returnValue executor1), w2))"

text \<open>
  A loaded unit that passes the guard of \<^verbatim>\<open>instrumentClass\<close> is a function whose
  \<^verbatim>\<open>prototype\<close> is an object: its own properties and those of its prototype, in the order
  of \<^verbatim>\<open>Object.getOwnPropertyNames\<close>. A member is a function or another value; after
  instrumentation a function member is the interceptor that replaced it. The recorder
  that \<^verbatim>\<open>instrumentClass\<close> creates is passed in as \<open>sLogger_obj\<close>.
\<close>

datatype member = Method callable | Field jsval

datatype instrumented = Wrapped interceptor | Kept member

datatype loaded =
    NotInstrumentable jsval
  | Unit "(string \<times> member) list" "(string \<times> member) list"

definition ignoredStaticMethods :: "string list" where
  "ignoredStaticMethods = [''length'', ''prototype'', ''name'']"

fun instrument_statics ::
  "jsval \<Rightarrow> (string \<times> member) list \<Rightarrow> world \<Rightarrow> (string \<times> instrumented) list \<times> world" where
  "instrument_statics lg [] w = ([], w)"
| "instrument_statics lg ((p, Method f) # ms) w =
     (if p \<notin> set ignoredStaticMethods then
        (case handleFunctionUnderTest lg f JUndefined JUndefined w of
           (it, w1) \<Rightarrow>
             (case instrument_statics lg ms w1 of (rest, w2) \<Rightarrow> ((p, Wrapped it) # rest, w2)))
      else
        (case instrument_statics lg ms w of (rest, w2) \<Rightarrow> ((p, Kept (Method f)) # rest, w2)))"
| "instrument_statics lg ((p, Field v) # ms) w =
     (case instrument_statics lg ms w of (rest, w2) \<Rightarrow> ((p, Kept (Field v)) # rest, w2))"

fun instrument_prototype ::
  "jsval \<Rightarrow> (string \<times> member) list \<Rightarrow> world \<Rightarrow> (string \<times> instrumented) list \<times> world" where
  "instrument_prototype lg [] w = ([], w)"
| "instrument_prototype lg ((p, Method f) # ms) w =
     (case handleFunctionUnderTest lg f (JBool (p = ''constructor'')) JUndefined w of
        (it, w1) \<Rightarrow>
          (case instrument_prototype lg ms w1 of (rest, w2) \<Rightarrow> ((p, Wrapped it) # rest, w2)))"
| "instrument_prototype lg ((p, Field v) # ms) w =
     (case instrument_prototype lg ms w of (rest, w2) \<Rightarrow> ((p, Kept (Field v)) # rest, w2))"

definition instrumentClass ::
  "jsval \<Rightarrow> loaded \<Rightarrow> world
     \<Rightarrow> ((string \<times> instrumented) list \<times> (string \<times> instrumented) list) option \<times> world" where
  \<comment> \<open>\<open>None\<close>: the early \<^verbatim>\<open>return\<close>; otherwise the statics and the prototype members after
      the two \<^verbatim>\<open>forEach\<close> loops\<close>
  "instrumentClass sLogger_obj cls w =
     (case cls of
        NotInstrumentable v \<Rightarrow> (None, w)
      | Unit statics protos \<Rightarrow>
          (case instrument_statics sLogger_obj statics w of
             (statics1, w1) \<Rightarrow>
               (case instrument_prototype sLogger_obj protos w1 of
                  (protos1, w2) \<Rightarrow> (Some (statics1, protos1), w2))))"

section \<open>The fixture recorder: \<^verbatim>\<open>FileLogger\<close>\<close>

text \<open>
  The files are the text written to each path so far; a stream appends to its file until
  it is ended. Writing to an ended stream adds nothing and raises
  \<^verbatim>\<open>ERR_STREAM_WRITE_AFTER_END\<close>, as an error event of the stream that no one handles, once
  the call has run to its end: an operation goes on after it, and its completion is the
  first error raised in it. The clock is the text
  \<^verbatim>\<open>String(new Date())\<close> read at each call (\<open>now\<close>). \<^verbatim>\<open>path.join\<close> (\<open>pjoin\<close>) and the text
  \<^verbatim>\<open>JSON.stringify(tree, null, 2)\<close> prints for a tree (\<open>render\<close>) are parameters. Directories
  are not modelled: \<^verbatim>\<open>mkdirSync\<close> sits in a \<^verbatim>\<open>try\<close> whose \<^verbatim>\<open>catch\<close> is empty.
\<close>

type_synonym files = "string \<Rightarrow> string"
type_synonym joiner = "string list \<Rightarrow> string"

record stream =
  stream_path :: string
  stream_ended :: bool

record FileLogger =
  logdir :: string
  fileBaseName :: string
  sourcePath :: string
  fileName :: "string option"
  writer :: "stream option"

fun split_on :: "char \<Rightarrow> string \<Rightarrow> string list" where
  \<comment> \<open>\<^verbatim>\<open>s.split(c)\<close> for a separator of one character\<close>
  "split_on c [] = [[]]"
| "split_on c (x # xs) =
     (if x = c then [] # split_on c xs
      else (case split_on c xs of [] \<Rightarrow> [[x]] | y # ys \<Rightarrow> (x # y) # ys))"

fun join_with :: "string \<Rightarrow> string list \<Rightarrow> string" where
  \<comment> \<open>\<^verbatim>\<open>xs.join(s)\<close>\<close>
  "join_with s [] = []"
| "join_with s [x] = x"
| "join_with s (x # y # ys) = x @ s @ join_with s (y # ys)"

definition getFileName :: "FileLogger \<Rightarrow> string \<Rightarrow> string" where
  \<comment> \<open>\<^verbatim>\<open>slice(1, 4)\<close> keeps the elements 1, 2 and 3\<close>
  "getFileName this now =
     fileBaseName this @ join_with ''_'' (take 3 (drop 1 (split_on CHR '' '' now)))"

definition write_after_end :: jsval where
  "write_after_end = JError ''Error'' ''ERR_STREAM_WRITE_AFTER_END''"

definition stream_write :: "stream \<Rightarrow> string \<Rightarrow> files \<Rightarrow> unit completion \<times> files" where
  \<comment> \<open>\<^verbatim>\<open>write(chunk)\<close> and the write of \<^verbatim>\<open>end(chunk)\<close>\<close>
  "stream_write st chunk fs =
     (if stream_ended st then (Thrown write_after_end, fs)
      else (Returned (), fs(stream_path st := fs (stream_path st) @ chunk)))"

definition first_error :: "unit completion \<Rightarrow> unit completion \<Rightarrow> unit completion" where
  "first_error c1 c2 = (case c1 of Thrown e \<Rightarrow> Thrown e | Returned u \<Rightarrow> c2)"

definition footer :: string where
  "footer = '']'' @ [CHR 0x0A]"

definition header :: "joiner \<Rightarrow> FileLogger \<Rightarrow> string" where
  \<open>header pjoin this =
     ''{"type":"unit","require":"'' @ pjoin [sourcePath this, fileBaseName this] @ '',"tests":[''\<close>

definition stop :: "FileLogger \<Rightarrow> files \<Rightarrow> unit completion \<times> bool \<times> FileLogger \<times> files" where
  \<comment> \<open>the second component: whether \<^verbatim>\<open>callback\<close> was called\<close>
  "stop this fs =
     (case writer this of
        None \<Rightarrow> (Returned (), False, this, fs)
      | Some st \<Rightarrow>
          (case stream_write st footer fs of
             (c, fs1) \<Rightarrow> (c, True, this\<lparr>writer := Some (st\<lparr>stream_ended := True\<rparr>)\<rparr>, fs1)))"

definition updateWriter ::
  "joiner \<Rightarrow> FileLogger \<Rightarrow> string \<Rightarrow> files \<Rightarrow> unit completion \<times> FileLogger \<times> files" where
  "updateWriter pjoin this now fs =
     (let fileName1 = getFileName this now
      in if Some fileName1 \<noteq> fileName this then
           (case stop this fs of
              (c1, called, this1, fs1) \<Rightarrow>
                (let st = \<lparr>stream_path = pjoin [logdir this1, fileName1], stream_ended = False\<rparr>;
                     this2 = this1\<lparr>fileName := Some fileName1, writer := Some st\<rparr>
                 in case stream_write st (header pjoin this2) fs1 of
                      (c2, fs2) \<Rightarrow> (first_error c1 c2, this2, fs2)))
         else (Returned (), this, fs))"

definition new_FileLogger ::
  "joiner \<Rightarrow> string \<Rightarrow> string \<Rightarrow> string \<Rightarrow> string \<Rightarrow> files
     \<Rightarrow> unit completion \<times> FileLogger \<times> files" where
  "new_FileLogger pjoin logdir_arg sourcePath_arg fileBaseName_arg now fs =
     updateWriter pjoin
       \<lparr>logdir = logdir_arg, fileBaseName = fileBaseName_arg, sourcePath = sourcePath_arg,
        fileName = None, writer = None\<rparr> now fs"

definition log_record :: "jsval \<Rightarrow> jsval \<Rightarrow> jsval \<Rightarrow> jsval \<Rightarrow> jsval \<Rightarrow> jsval" where
  \<comment> \<open>the object literal given to \<^verbatim>\<open>JSON.stringify\<close>\<close>
  "log_record method_arg construct_arg inInstance inputParams output =
     JObj [(''require'', inInstance),
           (''request'', JObj [(''payload'', inputParams), (''construct'', construct_arg),
                               (''method'', method_arg)]),
           (''output'', output)]"

definition log ::
  "joiner \<Rightarrow> (json \<Rightarrow> string) \<Rightarrow> FileLogger \<Rightarrow> jsval \<Rightarrow> jsval \<Rightarrow> jsval \<Rightarrow> jsval \<Rightarrow> jsval
     \<Rightarrow> string \<Rightarrow> files \<Rightarrow> unit completion \<times> FileLogger \<times> files" where
  "log pjoin render this method_arg construct_arg inInstance inputParams output now fs =
     (case updateWriter pjoin this now fs of
        (c1, this1, fs1) \<Rightarrow>
          (case JSON_stringify (log_record method_arg construct_arg inInstance inputParams output) of
             Thrown e \<Rightarrow> (Thrown e, this1, fs1)
           | Returned text \<Rightarrow>
               (case writer this1 of
                  None \<Rightarrow> (Thrown (TypeError ''Cannot read properties of undefined''), this1, fs1)
                | Some st \<Rightarrow>
                    (case stream_write st
                            (CHR 0x0A # (case text of None \<Rightarrow> ''undefined'' | Some t \<Rightarrow> render t))
                            fs1 of
                       (c2, fs2) \<Rightarrow> (first_error c1 c2, this1, fs2)))))"

subsection \<open>What a JSON document is\<close>

text \<open>
  A recogniser for the JSON grammar (RFC 8259), reading the text from left to right with
  a stack of the arrays and objects that are open.
\<close>

datatype jctx = InArray | InObject

datatype jmode =
    ExpectValue
  | ExpectValueOrClose
  | ExpectKeyOrClose
  | ExpectKey
  | ExpectColon
  | AfterValue
  | InString bool
  | InEscape bool
  | InUnicode bool nat
  | NumMinus | NumZero | NumInt | NumDot | NumFrac | NumE | NumESign | NumExp
  | InLiteral string
  | Invalid

definition is_ws :: "char \<Rightarrow> bool" where
  "is_ws c = (c = CHR '' '' \<or> c = CHR 0x09 \<or> c = CHR 0x0A \<or> c = CHR 0x0D)"

definition is_digit :: "char \<Rightarrow> bool" where
  "is_digit c = (c \<in> set ''0123456789'')"

definition is_hex :: "char \<Rightarrow> bool" where
  "is_hex c = (c \<in> set ''0123456789abcdefABCDEF'')"

definition after_value :: "jctx list \<Rightarrow> char \<Rightarrow> jmode \<times> jctx list" where
  "after_value stk c =
     (if is_ws c then (AfterValue, stk)
      else (case stk of
              [] \<Rightarrow> (Invalid, stk)
            | InArray # r \<Rightarrow>
                if c = CHR '','' then (ExpectValue, stk)
                else if c = CHR '']'' then (AfterValue, r) else (Invalid, stk)
            | InObject # r \<Rightarrow>
                if c = CHR '','' then (ExpectKey, stk)
                else if c = CHR ''}'' then (AfterValue, r) else (Invalid, stk)))"

definition start_value :: "jctx list \<Rightarrow> char \<Rightarrow> jmode \<times> jctx list" where
  \<open>start_value stk c =
     (if c = CHR ''{'' then (ExpectKeyOrClose, InObject # stk)
      else if c = CHR ''['' then (ExpectValueOrClose, InArray # stk)
      else if c = CHR ''"'' then (InString False, stk)
      else if c = CHR ''-'' then (NumMinus, stk)
      else if c = CHR ''0'' then (NumZero, stk)
      else if is_digit c then (NumInt, stk)
      else if c = CHR ''t'' then (InLiteral ''rue'', stk)
      else if c = CHR ''f'' then (InLiteral ''alse'', stk)
      else if c = CHR ''n'' then (InLiteral ''ull'', stk)
      else (Invalid, stk))\<close>

fun json_step :: "jmode \<times> jctx list \<Rightarrow> char \<Rightarrow> jmode \<times> jctx list" where
  "json_step (ExpectValue, stk) c = (if is_ws c then (ExpectValue, stk) else start_value stk c)"
| "json_step (ExpectValueOrClose, stk) c =
     (if is_ws c then (ExpectValueOrClose, stk)
      else if c = CHR '']'' then (AfterValue, tl stk) else start_value stk c)"
| \<open>json_step (ExpectKeyOrClose, stk) c =
     (if is_ws c then (ExpectKeyOrClose, stk)
      else if c = CHR ''}'' then (AfterValue, tl stk)
      else if c = CHR ''"'' then (InString True, stk) else (Invalid, stk))\<close>
| \<open>json_step (ExpectKey, stk) c =
     (if is_ws c then (ExpectKey, stk)
      else if c = CHR ''"'' then (InString True, stk) else (Invalid, stk))\<close>
| "json_step (ExpectColon, stk) c =
     (if is_ws c then (ExpectColon, stk)
      else if c = CHR '':'' then (ExpectValue, stk) else (Invalid, stk))"
| "json_step (AfterValue, stk) c = after_value stk c"
| \<open>json_step (InString k, stk) c =
     (if c = CHR ''"'' then (if k then ExpectColon else AfterValue, stk)
      else if c = CHR 0x5C then (InEscape k, stk)
      else if (of_char c :: nat) < 32 then (Invalid, stk)
      else (InString k, stk))\<close>
| \<open>json_step (InEscape k, stk) c =
     (if c = CHR ''u'' then (InUnicode k 4, stk)
      else if c = CHR ''"'' \<or> c = CHR 0x5C \<or> c \<in> set ''/bfnrt'' then (InString k, stk)
      else (Invalid, stk))\<close>
| "json_step (InUnicode k n, stk) c =
     (if is_hex c then (if n \<le> 1 then InString k else InUnicode k (n - 1), stk)
      else (Invalid, stk))"
| "json_step (NumMinus, stk) c =
     (if c = CHR ''0'' then (NumZero, stk)
      else if is_digit c then (NumInt, stk) else (Invalid, stk))"
| "json_step (NumZero, stk) c =
     (if c = CHR ''.'' then (NumDot, stk)
      else if c = CHR ''e'' \<or> c = CHR ''E'' then (NumE, stk) else after_value stk c)"
| "json_step (NumInt, stk) c =
     (if is_digit c then (NumInt, stk)
      else if c = CHR ''.'' then (NumDot, stk)
      else if c = CHR ''e'' \<or> c = CHR ''E'' then (NumE, stk) else after_value stk c)"
| "json_step (NumDot, stk) c = (if is_digit c then (NumFrac, stk) else (Invalid, stk))"
| "json_step (NumFrac, stk) c =
     (if is_digit c then (NumFrac, stk)
      else if c = CHR ''e'' \<or> c = CHR ''E'' then (NumE, stk) else after_value stk c)"
| "json_step (NumE, stk) c =
     (if c = CHR ''+'' \<or> c = CHR ''-'' then (NumESign, stk)
      else if is_digit c then (NumExp, stk) else (Invalid, stk))"
| "json_step (NumESign, stk) c = (if is_digit c then (NumExp, stk) else (Invalid, stk))"
| "json_step (NumExp, stk) c = (if is_digit c then (NumExp, stk) else after_value stk c)"
| "json_step (InLiteral [], stk) c = (Invalid, stk)"
| "json_step (InLiteral (x # xs), stk) c =
     (if c = x then (if xs = [] then AfterValue else InLiteral xs, stk) else (Invalid, stk))"
| "json_step (Invalid, stk) c = (Invalid, stk)"

definition json_valid :: "string \<Rightarrow> bool" where
  "json_valid s =
     (case foldl json_step (ExpectValue, []) s of
        (m, stk) \<Rightarrow> stk = [] \<and> m \<in> {AfterValue, NumZero, NumInt, NumFrac, NumExp})"

text \<open>
  The characters of a text that are no white space, and the invariant of the recogniser
  behind an opening brace: the object is still open, or it was closed by the last
  character that is no white space, a closing brace.
\<close>

definition non_ws :: "string \<Rightarrow> string" where
  "non_ws s = filter (\<lambda>c. \<not> is_ws c) s"

definition object_open :: "string \<Rightarrow> jmode \<times> jctx list \<Rightarrow> bool" where
  \<comment> \<open>what holds after reading \<open>s\<close> behind an opening brace\<close>
  "object_open s st =
     (case st of
        (m, stk) \<Rightarrow>
          (m = ExpectValueOrClose \<longrightarrow> stk \<noteq> [] \<and> hd stk = InArray) \<and>
          (m = Invalid
           \<or> (stk \<noteq> [] \<and> last stk = InObject)
           \<or> (stk = [] \<and> m = AfterValue \<and> non_ws s \<noteq> [] \<and> last (non_ws s) = CHR ''}'')))"

section \<open>The \<^verbatim>\<open>Tcgen\<close> constructor and \<^verbatim>\<open>walkSync\<close>\<close>

text \<open>
  The platform gives \<^verbatim>\<open>path.sep\<close>, \<^verbatim>\<open>os.tmpdir()\<close>, \<^verbatim>\<open>path.join\<close> and the \<^verbatim>\<open>name\<close> of
  \<^verbatim>\<open>package.json\<close>. The disk says what each path names, a file or a directory with its
  entries, and lists the calls made to it: \<^verbatim>\<open>mkdirpSync\<close>, \<^verbatim>\<open>readdirSync\<close>, \<^verbatim>\<open>statSync\<close>.
  Below the directory it starts from, \<^verbatim>\<open>walkSync\<close> reads the entries of that directory's
  tree.
\<close>

record platform =
  sep :: char
  tmpdir :: string
  path_join :: joiner
  MODULE_CODE :: string

datatype fsnode = File | Dir "(string \<times> fsnode) list"

datatype fs_call = Mkdirp string | Readdir string | Stat string

record disk =
  node_at :: "string \<Rightarrow> fsnode option"
  calls :: "fs_call list"

definition AssertionError :: "string \<Rightarrow> jsval" where
  "AssertionError msg = JError ''AssertionError'' msg"

fun get_prop :: "jsval \<Rightarrow> string \<Rightarrow> jsval completion" where
  \<comment> \<open>\<^verbatim>\<open>v.k\<close> for a key that only an object literal holds\<close>
  "get_prop JUndefined k = Thrown (TypeError ''Cannot read properties of undefined'')"
| "get_prop JNull k = Thrown (TypeError ''Cannot read properties of null'')"
| "get_prop (JObj ps) k = Returned (case map_of ps k of None \<Rightarrow> JUndefined | Some v \<Rightarrow> v)"
| "get_prop (JWithToJSON ps r) k =
     Returned (case map_of ps k of None \<Rightarrow> JUndefined | Some v \<Rightarrow> v)"
| "get_prop (JWithThrowingToJSON ps e) k =
     Returned (case map_of ps k of None \<Rightarrow> JUndefined | Some v \<Rightarrow> v)"
| "get_prop v k = Returned JUndefined"

definition endsWith :: "string \<Rightarrow> string \<Rightarrow> bool" where
  "endsWith s e = (length e \<le> length s \<and> drop (length s - length e) s = e)"

fun walk_entries ::
  "joiner \<Rightarrow> string \<Rightarrow> string \<Rightarrow> (string \<times> fsnode) list \<Rightarrow> string list \<times> fs_call list
     \<Rightarrow> string list \<times> fs_call list" where
  \<comment> \<open>the \<^verbatim>\<open>forEach\<close> over the entries of \<open>dir\<close>; the state is \<^verbatim>\<open>fls\<close> and the disk calls\<close>
  "walk_entries pjoin dir ext [] st = st"
| "walk_entries pjoin dir ext ((file, File) # es) (fls, cs) =
     walk_entries pjoin dir ext es
       (if file \<noteq> ''.'' then
          (if endsWith file ext then (fls @ [pjoin [dir, file]], cs @ [Stat (pjoin [dir, file])])
           else (fls, cs @ [Stat (pjoin [dir, file])]))
        else (fls, cs))"
| "walk_entries pjoin dir ext ((file, Dir sub) # es) (fls, cs) =
     walk_entries pjoin dir ext es
       (if file \<noteq> ''.'' then
          walk_entries pjoin (pjoin [dir, file]) ext sub
            (fls, cs @ [Stat (pjoin [dir, file]), Readdir (pjoin [dir, file])])
        else (fls, cs))"

definition walkSync ::
  "joiner \<Rightarrow> string \<Rightarrow> string \<Rightarrow> string list \<Rightarrow> disk \<Rightarrow> (string list) completion \<times> disk" where
  "walkSync pjoin dir ext filelist_arg dk =
     (case node_at dk dir of
        None \<Rightarrow> (Thrown (JError ''Error'' ''ENOENT''), dk\<lparr>calls := calls dk @ [Readdir dir]\<rparr>)
      | Some File \<Rightarrow> (Thrown (JError ''Error'' ''ENOTDIR''), dk\<lparr>calls := calls dk @ [Readdir dir]\<rparr>)
      | Some (Dir es) \<Rightarrow>
          (case walk_entries pjoin dir ext es (filelist_arg, calls dk @ [Readdir dir]) of
             (fls, cs) \<Rightarrow> (Returned fls, dk\<lparr>calls := cs\<rparr>)))"

definition mkdirpSync :: "jsval \<Rightarrow> disk \<Rightarrow> unit completion \<times> disk" where
  "mkdirpSync d dk =
     (case d of
        JStr dir \<Rightarrow>
          (case node_at dk dir of
             Some File \<Rightarrow> (Thrown (JError ''Error'' ''EEXIST''), dk\<lparr>calls := calls dk @ [Mkdirp dir]\<rparr>)
           | Some (Dir es) \<Rightarrow> (Returned (), dk\<lparr>calls := calls dk @ [Mkdirp dir]\<rparr>)
           | None \<Rightarrow>
               (Returned (),
                dk\<lparr>node_at := (node_at dk)(dir \<mapsto> Dir []), calls := calls dk @ [Mkdirp dir]\<rparr>))
      | _ \<Rightarrow> (Thrown (TypeError ''The path argument must be of type string''), dk))"

definition toUpperCase :: "string \<Rightarrow> string" where
  "toUpperCase s =
     map (\<lambda>c. if 97 \<le> (of_char c :: nat) \<and> (of_char c :: nat) \<le> 122
               then char_of ((of_char c :: nat) - 32) else c) s"

definition default_destdir :: "platform \<Rightarrow> string \<Rightarrow> jsval completion" where
  \<comment> \<open>\<^verbatim>\<open>join(tmpdir(), MODULE_CODE, this.srcdir.split(sep).slice(-3, -1)[0])\<close>; \<^verbatim>\<open>path.join\<close>
      throws a TypeError for an argument that is no string\<close>
  "default_destdir plat srcdir_s =
     (let segs = split_on (sep plat) srcdir_s;
          sliced = take (length segs - 1 - (length segs - 3)) (drop (length segs - 3) segs)
      in case sliced of
           [] \<Rightarrow> Thrown (TypeError ''The path argument must be of type string. Received undefined'')
         | seg # rest \<Rightarrow> Returned (JStr (path_join plat [tmpdir plat, MODULE_CODE plat, seg])))"

record tcgen =
  mainModuleCodeUpper :: string
  srcdir :: string
  destdir :: jsval
  filelist :: "string list"

definition new_Tcgen :: "platform \<Rightarrow> jsval \<Rightarrow> disk \<Rightarrow> tcgen completion \<times> disk" where
  \<comment> \<open>\<^verbatim>\<open>typeof v === 'string'\<close> holds for \<open>JStr\<close> only. The third assertion tests
      \<^verbatim>\<open>this.srcdir\<close> again and cannot fail. Binding \<^verbatim>\<open>throwError\<close> of the package
      \<^verbatim>\<open>mbjs\<close> is left out.\<close>
  "new_Tcgen plat config dk =
     (if typeof config \<noteq> ''object'' then (Thrown (AssertionError ''config MUST_BE_OBJECT''), dk)
      else (case get_prop config ''srcdir'' of
              Thrown e \<Rightarrow> (Thrown e, dk)
            | Returned (JStr srcdir_s) \<Rightarrow>
                (case get_prop config ''destdir'' of
                   Thrown e \<Rightarrow> (Thrown e, dk)
                 | Returned dd \<Rightarrow>
                     (case (if truthy dd then Returned dd else default_destdir plat srcdir_s) of
                        Thrown e \<Rightarrow> (Thrown e, dk)
                      | Returned destdir_v \<Rightarrow>
                          (case mkdirpSync destdir_v dk of
                             (Thrown e, dk1) \<Rightarrow> (Thrown e, dk1)
                           | (Returned u, dk1) \<Rightarrow>
                               (case walkSync (path_join plat) srcdir_s ''.js'' [] dk1 of
                                  (Thrown e, dk2) \<Rightarrow> (Thrown e, dk2)
                                | (Returned fls, dk2) \<Rightarrow>
                                    (Returned \<lparr>mainModuleCodeUpper = toUpperCase (MODULE_CODE plat),
                                               srcdir = srcdir_s, destdir = destdir_v,
                                               filelist = fls\<rparr>, dk2)))))
            | Returned v \<Rightarrow> (Thrown (AssertionError ''srcdir MUST_BE_STRING''), dk)))"

section \<open>Reading the trace\<close>

text \<open>
  The argument lists of the invocations of \<^verbatim>\<open>this.outputHandler\<close> and of the wrapping
  callback, in order. \<open>is_handler_fn\<close>: the value is a function that a call of
  \<^verbatim>\<open>this.outputHandler\<close> enters. \<open>balanced w w'\<close>: from \<open>w\<close> to \<open>w'\<close> the handler was
  invoked as often as the wrapping callback.
\<close>

fun completions :: "event list \<Rightarrow> jsval list list" where
  "completions [] = []"
| "completions (Completion args # es) = args # completions es"
| "completions (e # es) = completions es"

fun wrapper_calls :: "event list \<Rightarrow> jsval list list" where
  "wrapper_calls [] = []"
| "wrapper_calls (WrapperCall args # es) = args # wrapper_calls es"
| "wrapper_calls (e # es) = wrapper_calls es"

fun is_handler_fn :: "jsval \<Rightarrow> bool" where
  "is_handler_fn (JFun f) = True"
| "is_handler_fn JNoop = True"
| "is_handler_fn (JHandler a l) = True"
| "is_handler_fn v = False"



section \<open>Concrete inputs\<close>

definition empty_world :: world where
  "empty_world =
     \<lparr>trace = [], promise = Pending, reactions = None, heap = (\<lambda>a. []), next_addr = 0\<rparr>"

definition quiet_env :: env where
  \<comment> \<open>every external function returns \<^verbatim>\<open>undefined\<close>\<close>
  "quiet_env f args = Returned JUndefined"

definition returns_five :: callable where
  \<comment> \<open>\<^verbatim>\<open>function () { return 5 }\<close>; with \<^verbatim>\<open>new\<close> it gives the fresh object\<close>
  "returns_five =
     \<lparr>ident = 0, call_body = (\<lambda>args. Return (JNum 5)),
      construct_body = Some (\<lambda>args. Return (JObj []))\<rparr>"

definition throws_boom :: callable where
  \<comment> \<open>\<^verbatim>\<open>function () { throw new Error('boom') }\<close>, called or constructed\<close>
  "throws_boom =
     \<lparr>ident = 0, call_body = (\<lambda>args. Throw (JError ''Error'' ''boom'')),
      construct_body = Some (\<lambda>args. Throw (JError ''Error'' ''boom''))\<rparr>"


definition adds :: callable where
  \<comment> \<open>the method \<^verbatim>\<open>add (a, b) { return a + b }\<close> on numbers; a method has no [[Construct]]\<close>
  "adds =
     \<lparr>ident = 1,
      call_body = (\<lambda>args. case args of JNum a # JNum b # rest \<Rightarrow> Return (JNum (a + b))
                                   | _ \<Rightarrow> Return JNaN),
      construct_body = None\<rparr>"

definition posix_join :: joiner where
  \<comment> \<open>\<^verbatim>\<open>path.join\<close> on POSIX for segments that need no normalisation\<close>
  "posix_join segs =
     (let s = join_with ''/'' (filter (\<lambda>x. x \<noteq> []) segs) in if s = [] then ''.'' else s)"

definition posix :: platform where
  "posix = \<lparr>sep = CHR ''/'', tmpdir = ''/tmp'', path_join = posix_join, MODULE_CODE = ''tcgen''\<rparr>"

definition no_files :: files where
  "no_files p = []"

definition sample_disk :: disk where
  \<comment> \<open>\<^verbatim>\<open>/app/src\<close> holds \<^verbatim>\<open>a.js\<close>, \<^verbatim>\<open>notes.txt\<close> and \<^verbatim>\<open>lib/b.js\<close>; the directory \<^verbatim>\<open>src\<close> holds \<^verbatim>\<open>c.js\<close>\<close>
  "sample_disk =
     \<lparr>node_at = [''/app/src'' \<mapsto> Dir [(''a.js'', File), (''notes.txt'', File),
                                        (''lib'', Dir [(''b.js'', File)])],
                 ''src'' \<mapsto> Dir [(''c.js'', File)]],
      calls = []\<rparr>"

definition sample_class :: loaded where
  \<comment> \<open>\<^verbatim>\<open>class C { constructor () {...}; add () {...}; static make () {...} }\<close>\<close>
  "sample_class =
     Unit [(''length'', Field (JNum 0)), (''name'', Field (JStr ''C'')),
           (''prototype'', Field (JObj [])), (''make'', Method returns_five)]
          [(''constructor'', Method returns_five), (''add'', Method adds)]"

section \<open>Evaluation\<close>

lemmas exec_defs =
  execute_def promise_executor_def attempt_def construct_new_def invoke_def new_Executor_def
  installs_callback_def wrapped_payload_def last_arg_def resolving_def rejecting_def
  call_handler_def call_ext_def outcome_handler_def resolve_promise_def reject_promise_def
  nth_or_undefined_def TypeError_def Let_def

lemmas tcgen_defs =
  mainCall_def handleFunctionUnderTest_def snapshot_def clonePrimitive_def
  clonePrimitive_try_def JSON_stringify_def JSON_parse_def

section \<open>What \<^verbatim>\<open>execute\<close> returns and what it leaves in \<^verbatim>\<open>returnValue\<close>\<close>

lemma execute_returns: "fst (execute env this params w) = Returned JUndefined"
  by (simp add: execute_def Let_def split: prod.splits)

lemma attempt_this:
  "fst (snd (attempt env this payload w)) =
     (if truthy (construct this) then this
      else (case fst (invoke env this payload w) of
              Returned ret \<Rightarrow> this\<lparr>returnValue := ret\<rparr>
            | Thrown er \<Rightarrow> this))"
  by (auto simp: attempt_def split: prod.splits completion.splits)

lemma promise_executor_this:
  "fst (snd (promise_executor env this params w)) =
     fst (snd (attempt env this (wrapped_payload this params) w))"
  by (auto simp: promise_executor_def Let_def split: prod.splits completion.splits)

lemma attempt_isAsync: "isAsync (fst (snd (attempt env this payload w))) = isAsync this"
  by (auto simp: attempt_this split: completion.splits)


text \<open>
  C9, as the code has it. \<^verbatim>\<open>execute\<close> returns \<^verbatim>\<open>undefined\<close> for every executor, argument
  list and world. Afterwards \<^verbatim>\<open>returnValue\<close> is the internal promise when \<^verbatim>\<open>isAsync\<close> is
  truthy; otherwise, on the constructor path it is what it was before the call, and on
  the direct-call path it is what the callable returned, or what it was before when the
  callable threw. So the constructed instance is never stored, but on the constructor
  path \<^verbatim>\<open>returnValue\<close> is assigned when \<^verbatim>\<open>isAsync\<close> is truthy.
\<close>

theorem execute_returnValue:
  "fst (execute env this params w) = Returned JUndefined \<and>
   returnValue (fst (snd (execute env this params w))) =
     (if truthy (isAsync this) then JExecPromise
      else if truthy (construct this) then returnValue this
      else (case fst (invoke env this (wrapped_payload this params)
                        (w\<lparr>promise := Pending, reactions := None\<rparr>)) of
              Returned ret \<Rightarrow> ret
            | Thrown er \<Rightarrow> returnValue this))"
proof -
  let ?w = "w\<lparr>promise := Pending, reactions := None\<rparr>"
  obtain c this1 w1 where pe: "promise_executor env this params ?w = (c, this1, w1)"
    by (cases "promise_executor env this params ?w") auto
  have t1: "this1 = fst (snd (attempt env this (wrapped_payload this params) ?w))"
    using promise_executor_this [of env this params ?w] pe by simp
  have ia: "isAsync this1 = isAsync this"
    using t1 attempt_isAsync by simp
  have rv: "returnValue (fst (snd (execute env this params w))) =
      (if truthy (isAsync this) then JExecPromise else returnValue this1)"
    using pe ia by (simp add: execute_def Let_def)
  show ?thesis
    using rv t1 by (auto simp: execute_returns attempt_this split: completion.splits)
qed

text \<open>
  The theorem at \<^verbatim>\<open>function () { return 5 }\<close> on the direct-call path with \<^verbatim>\<open>isAsync\<close>
  left out: \<^verbatim>\<open>returnValue\<close> is 5.
\<close>

theorem execute_returnValue_witness:
  "fst (execute quiet_env (new_Executor returns_five (JFun 1) JUndefined JUndefined) [] empty_world)
     = Returned JUndefined \<and>
   returnValue (fst (snd (execute quiet_env
       (new_Executor returns_five (JFun 1) JUndefined JUndefined) [] empty_world))) = JNum 5"
  using execute_returnValue [of quiet_env "new_Executor returns_five (JFun 1) JUndefined JUndefined"
      "[]" empty_world]
  by (simp add: exec_defs returns_five_def)

text \<open>
  C9 as stated fails: with \<^verbatim>\<open>construct = true\<close> and \<^verbatim>\<open>isAsync = true\<close> the constructor path
  is taken and \<^verbatim>\<open>returnValue\<close>, \<^verbatim>\<open>undefined\<close> before the call, is assigned the promise.
\<close>

theorem returnValue_assigned_on_constructor_path:
  "truthy (construct (new_Executor returns_five JNoop (JBool True) (JBool True))) \<and>
   returnValue (new_Executor returns_five JNoop (JBool True) (JBool True)) = JUndefined \<and>
   returnValue (fst (snd (execute quiet_env
       (new_Executor returns_five JNoop (JBool True) (JBool True)) [] empty_world))) = JExecPromise"
  by (simp add: exec_defs returns_five_def empty_world_def)

section \<open>How often the completion handler fires\<close>

lemma completions_append [simp]: "completions (xs @ ys) = completions xs @ completions ys"
  by (induction xs rule: completions.induct) auto

lemma wrapper_calls_append [simp]: "wrapper_calls (xs @ ys) = wrapper_calls xs @ wrapper_calls ys"
  by (induction xs rule: wrapper_calls.induct) auto

lemma call_ext_facts:
  "completions (trace (snd (call_ext env c a w))) = completions (trace w) \<and>
   wrapper_calls (trace (snd (call_ext env c a w))) = wrapper_calls (trace w) \<and>
   promise (snd (call_ext env c a w)) = promise w"
  by (cases c) (simp_all add: call_ext_def)

lemma outcome_handler_facts:
  "completions (trace (snd (outcome_handler env a sl hargs w))) = completions (trace w) \<and>
   wrapper_calls (trace (snd (outcome_handler env a sl hargs w))) = wrapper_calls (trace w) \<and>
   promise (snd (outcome_handler env a sl hargs w)) = promise w"
  by (simp add: outcome_handler_def Let_def call_ext_facts)

lemma call_handler_fires:
  "is_handler_fn oh \<Longrightarrow>
   completions (trace (snd (call_handler env oh args w))) = completions (trace w) @ [args] \<and>
   wrapper_calls (trace (snd (call_handler env oh args w))) = wrapper_calls (trace w) \<and>
   promise (snd (call_handler env oh args w)) = promise w"
  by (cases oh) (simp_all add: call_handler_def call_ext_facts outcome_handler_facts)

lemma call_handler_promise: "promise (snd (call_handler env oh args w)) = promise w"
  by (cases oh) (simp_all add: call_handler_def call_ext_facts outcome_handler_facts)

lemma call_handler_returned:
  "call_handler env oh args w = (Returned r, w') \<Longrightarrow> is_handler_fn oh"
  by (cases oh) (simp_all add: call_handler_def)

lemma resolve_promise_trace [simp]: "trace (resolve_promise args w) = trace w"
  by (simp add: resolve_promise_def)

lemma reject_promise_trace [simp]: "trace (reject_promise er w) = trace w"
  by (simp add: reject_promise_def)





















lemma wrapped_payload_eq:
  "wrapped_payload this params =
     (if installs_callback this params then butlast params @ [JWrapperCb (last params)] else params)"
proof (cases "installs_callback this params")
  case True
  then have ne: "params \<noteq> []"
    by (auto simp: installs_callback_def last_arg_def)
  then have "params[length params - 1 := JWrapperCb (last params)]
      = butlast params @ [JWrapperCb (last params)]"
    by (induction params rule: rev_induct) simp_all
  then show ?thesis using True ne by (simp add: wrapped_payload_def last_arg_def)
next
  case False
  then show ?thesis by (simp add: wrapped_payload_def)
qed

lemma wrapper_cb_unfold:
  assumes hr: "call_handler env (outputHandler this)
                 (if truthy (nth_or_undefined args 0) then [nth_or_undefined args 0]
                  else JNull # drop 1 args)
                 (w\<lparr>trace := trace w @ [WrapperCall args]\<rparr>) = (Returned r, w1)"
  shows "call_value env this (JWrapperCb prevCb) args w =
           call_value env this prevCb args
             (if truthy (nth_or_undefined args 0) then reject_promise (nth_or_undefined args 0) w1
              else resolve_promise (drop 1 args) w1)
       \<and> completions (trace w1) = completions (trace w) @
           [if truthy (nth_or_undefined args 0) then [nth_or_undefined args 0] else JNull # drop 1 args]
       \<and> promise w1 = promise w"
proof -
  let ?w0 = "w\<lparr>trace := trace w @ [WrapperCall args]\<rparr>"
  define hargs where
    "hargs = (if truthy (nth_or_undefined args 0) then [nth_or_undefined args 0]
              else JNull # drop 1 args)"
  have hr': "call_handler env (outputHandler this) hargs ?w0 = (Returned r, w1)"
    using hr by (simp add: hargs_def)
  have cv: "call_value env this (JWrapperCb prevCb) args w =
           call_value env this prevCb args
             (if truthy (nth_or_undefined args 0) then reject_promise (nth_or_undefined args 0) w1
              else resolve_promise (drop 1 args) w1)"
    using hr by (auto simp: resolving_def rejecting_def split: if_splits)
  have f: "is_handler_fn (outputHandler this)"
    using call_handler_returned [OF hr] .
  have c: "completions (trace w1) = completions (trace w) @ [hargs]"
    using call_handler_fires [OF f, of env hargs ?w0] hr' by simp
  have p: "promise w1 = promise w"
    using call_handler_promise [of env "outputHandler this" hargs ?w0] hr' by simp
  show ?thesis using cv c p by (simp add: hargs_def)
qed

text \<open>
  C5, as the code has it. When \<^verbatim>\<open>isAsync\<close> is neither \<^verbatim>\<open>false\<close> nor \<^verbatim>\<open>1\<close> and the last
  argument is a function, the last argument is replaced by the wrapping callback, and
  otherwise the arguments are left alone. The wrapping callback tests its first argument
  for truthiness: a truthy first argument goes to \<^verbatim>\<open>rejecting\<close>, anything else sends the
  remaining arguments to \<^verbatim>\<open>resolving\<close>. When the completion handler returns, the promise
  is settled accordingly if it was pending, and then the caller's callback is called with
  the original arguments, its result being the wrapper's result.
\<close>

theorem wrapping_callback:
  assumes hr: "call_handler env (outputHandler this)
                 (if truthy (nth_or_undefined args 0) then [nth_or_undefined args 0]
                  else JNull # drop 1 args)
                 (w\<lparr>trace := trace w @ [WrapperCall args]\<rparr>) = (Returned r, w1)"
  shows "wrapped_payload this params =
           (if installs_callback this params then butlast params @ [JWrapperCb (last params)]
            else params)
       \<and> call_value env this (JWrapperCb prevCb) args w =
           call_value env this prevCb args
             (if truthy (nth_or_undefined args 0) then reject_promise (nth_or_undefined args 0) w1
              else resolve_promise (drop 1 args) w1)
       \<and> completions (trace w1) = completions (trace w) @
           [if truthy (nth_or_undefined args 0) then [nth_or_undefined args 0] else JNull # drop 1 args]
       \<and> promise (if truthy (nth_or_undefined args 0) then reject_promise (nth_or_undefined args 0) w1
                   else resolve_promise (drop 1 args) w1) =
           (if promise w \<noteq> Pending then promise w
            else if truthy (nth_or_undefined args 0) then Rejected (nth_or_undefined args 0)
            else if nth_or_undefined (drop 1 args) 0 = JExecPromise
                 then Rejected (TypeError ''Chaining cycle detected for promise'')
            else if is_thenable (nth_or_undefined (drop 1 args) 0)
                 then Following (nth_or_undefined (drop 1 args) 0)
                 else Fulfilled (nth_or_undefined (drop 1 args) 0))"
  using wrapper_cb_unfold [OF hr] wrapped_payload_eq [of this params]
  by (simp add: reject_promise_def resolve_promise_def Let_def)

text \<open>
  The theorem at the callback arguments \<^verbatim>\<open>(Error('boom'), 1)\<close>.
\<close>

theorem wrapping_callback_witness:
  "installs_callback (new_Executor returns_five (JFun 1) JUndefined JUndefined) [JNum 1, JFun 2] \<and>
   wrapped_payload (new_Executor returns_five (JFun 1) JUndefined JUndefined) [JNum 1, JFun 2]
     = [JNum 1, JWrapperCb (JFun 2)] \<and>
   call_value quiet_env (new_Executor returns_five (JFun 1) JUndefined JUndefined)
       (JWrapperCb (JFun 2)) [JError ''Error'' ''boom'', JNum 1] empty_world
     = (Returned JUndefined,
        empty_world\<lparr>trace := [WrapperCall [JError ''Error'' ''boom'', JNum 1],
                               Completion [JError ''Error'' ''boom''],
                               Call 1 [JError ''Error'' ''boom''],
                               Call 2 [JError ''Error'' ''boom'', JNum 1]],
                     promise := Rejected (JError ''Error'' ''boom'')\<rparr>)"
proof -
  let ?ex = "new_Executor returns_five (JFun 1) JUndefined JUndefined"
  let ?args = "[JError ''Error'' ''boom'', JNum 1]"
  have hr: "call_handler quiet_env (outputHandler ?ex)
              (if truthy (nth_or_undefined ?args 0) then [nth_or_undefined ?args 0]
               else JNull # drop 1 ?args)
              (empty_world\<lparr>trace := trace empty_world @ [WrapperCall ?args]\<rparr>)
            = (Returned JUndefined,
               empty_world\<lparr>trace := [WrapperCall ?args, Completion [JError ''Error'' ''boom''],
                                      Call 1 [JError ''Error'' ''boom'']]\<rparr>)"
    by (simp add: exec_defs empty_world_def quiet_env_def)
  show ?thesis
    using wrapping_callback [OF hr, where params = "[JNum 1, JFun 2]" and prevCb = "JFun 2"]
    by (simp add: exec_defs empty_world_def quiet_env_def)
qed

text \<open>
  C5 as stated fails: the first argument \<open>0\<close> is not \<^verbatim>\<open>null\<close>, and the wrapping callback
  settles success with the remaining arguments.
\<close>

theorem wrapper_settles_success_on_zero:
  "JNum 0 \<noteq> JNull \<and>
   call_value quiet_env (new_Executor returns_five (JFun 1) JUndefined JUndefined)
       (JWrapperCb (JFun 2)) [JNum 0, JNum 7] empty_world
     = (Returned JUndefined,
        empty_world\<lparr>trace := [WrapperCall [JNum 0, JNum 7], Completion [JNull, JNum 7],
                               Call 1 [JNull, JNum 7], Call 2 [JNum 0, JNum 7]],
                     promise := Fulfilled (JNum 7)\<rparr>)"
  by (simp add: exec_defs empty_world_def quiet_env_def)

text \<open>
  A synchronous throw under a completion handler that returns. When the \<^verbatim>\<open>try\<close> block
  throws \<open>er\<close>, \<^verbatim>\<open>execute\<close> returns \<^verbatim>\<open>undefined\<close>, the handler has been invoked with \<open>[er]\<close>,
  and the internal promise is rejected with \<open>er\<close> unless a callback had settled it
  before; \<^verbatim>\<open>returnValue\<close> holds that promise only when \<^verbatim>\<open>isAsync\<close> is truthy.
\<close>

lemma sync_throw_is_caught:
  assumes a: "attempt env this (wrapped_payload this params)
                (w\<lparr>promise := Pending, reactions := None\<rparr>) = (Thrown er, this1, w1)"
      and hr: "call_handler env (outputHandler this) [er] w1 = (Returned r, w2)"
  shows "execute env this params w =
           (Returned JUndefined,
            (if truthy (isAsync this) then this\<lparr>returnValue := JExecPromise\<rparr> else this),
            reject_promise er w2)
       \<and> completions (trace w2) = completions (trace w1) @ [[er]]
       \<and> promise (reject_promise er w2) = (if promise w1 = Pending then Rejected er else promise w1)"
proof -
  have t1: "this1 = this"
    using a by (auto simp: attempt_def split: if_splits prod.splits completion.splits)
  have e: "execute env this params w =
           (Returned JUndefined,
            (if truthy (isAsync this) then this\<lparr>returnValue := JExecPromise\<rparr> else this),
            reject_promise er w2)"
    using a hr t1 by (simp add: execute_def promise_executor_def rejecting_def Let_def)
  have f: "is_handler_fn (outputHandler this)"
    using call_handler_returned [OF hr] .
  have c: "completions (trace w2) = completions (trace w1) @ [[er]]"
    using call_handler_fires [OF f, of env "[er]" w1] hr by simp
  have p: "promise w2 = promise w1"
    using call_handler_promise [of env "outputHandler this" "[er]" w1] hr by simp
  show ?thesis using e c p by (simp add: reject_promise_def)
qed

text \<open>
  The lemma at \<^verbatim>\<open>function () { throw new Error('boom') }\<close>.
\<close>

lemma sync_throw_is_caught_example:
  "execute quiet_env (new_Executor throws_boom (JFun 1) JUndefined JUndefined) [] empty_world =
     (Returned JUndefined, new_Executor throws_boom (JFun 1) JUndefined JUndefined,
      empty_world\<lparr>trace := [Completion [JError ''Error'' ''boom''], Call 1 [JError ''Error'' ''boom'']],
                   promise := Rejected (JError ''Error'' ''boom'')\<rparr>)"
proof -
  let ?ex = "new_Executor throws_boom (JFun 1) JUndefined JUndefined"
  have a: "attempt quiet_env ?ex (wrapped_payload ?ex [])
             (empty_world\<lparr>promise := Pending, reactions := None\<rparr>)
           = (Thrown (JError ''Error'' ''boom''), ?ex, empty_world)"
    by (simp add: exec_defs throws_boom_def empty_world_def)
  have hr: "call_handler quiet_env (outputHandler ?ex) [JError ''Error'' ''boom''] empty_world
            = (Returned JUndefined,
               empty_world\<lparr>trace := [Completion [JError ''Error'' ''boom''],
                                      Call 1 [JError ''Error'' ''boom'']]\<rparr>)"
    by (simp add: exec_defs empty_world_def quiet_env_def)
  show ?thesis
    using sync_throw_is_caught [OF a hr]
    by (simp add: exec_defs empty_world_def)
qed

text \<open>
  C3 at \<^verbatim>\<open>function () { throw new Error('boom') }\<close>, called with no argument. Through an
  executor with a completion handler, \<^verbatim>\<open>execute\<close> hands the error to the handler and
  rejects its internal promise with it, but it returns \<^verbatim>\<open>undefined\<close> and leaves
  \<^verbatim>\<open>returnValue\<close> \<^verbatim>\<open>undefined\<close>: the caller gets neither the error nor the promise. Through
  the interceptor made by \<^verbatim>\<open>handleFunctionUnderTest(logger, f, 'boom')\<close> the caller gets
  \<^verbatim>\<open>undefined\<close> as well, the logger is not called, and the internal promise is rejected
  with the TypeError of calling \<^verbatim>\<open>'boom'\<close> as \<^verbatim>\<open>outputHandler\<close>.
\<close>

theorem sync_throw_not_rethrown:
  "call_body throws_boom [] = Throw (JError ''Error'' ''boom'') \<and>
   execute quiet_env (new_Executor throws_boom (JFun 1) JUndefined JUndefined) [] empty_world
     = (Returned JUndefined,
        new_Executor throws_boom (JFun 1) JUndefined JUndefined,
        empty_world\<lparr>trace := [Completion [JError ''Error'' ''boom''],
                               Call 1 [JError ''Error'' ''boom'']],
                     promise := Rejected (JError ''Error'' ''boom'')\<rparr>) \<and>
   returnValue (new_Executor throws_boom (JFun 1) JUndefined JUndefined) = JUndefined \<and>
   (let (it, w0) = handleFunctionUnderTest (JFun 1) throws_boom (JStr ''boom'') JUndefined empty_world;
        (c, w1) = mainCall quiet_env it [] w0
    in c = Returned JUndefined \<and> trace w1 = [] \<and>
       promise w1 = Rejected (TypeError ''this.outputHandler is not a function''))"
  by (simp add: exec_defs tcgen_defs throws_boom_def empty_world_def quiet_env_def)

section \<open>The interceptor as it is wired\<close>

text \<open>
  With the default \<^verbatim>\<open>isConstructor = false\<close> the interceptor returns \<^verbatim>\<open>undefined\<close> whatever
  the callable and the arguments are, and \<^verbatim>\<open>instrumentClass\<close> gives every interceptor it
  creates \<^verbatim>\<open>isConstructor = false\<close>.
\<close>

lemma mainCall_returns_undefined:
  assumes f: "isConstructor it = JBool False"
  shows "fst (mainCall env it args w) = Returned JUndefined"
proof -
  let ?w1 = "w\<lparr>heap := (heap w)(applyArgs it := heap w (applyArgs it) @ [JArr (map snapshot args)])\<rparr>"
  let ?w0 = "?w1\<lparr>promise := Pending, reactions := None\<rparr>"
  let ?ex = "new_Executor (ent it) (prop_val it) (JHandler (applyArgs it) (sLogger it)) (isConstructor it)"
  have c: "truthy (construct ?ex)" and a: "\<not> truthy (isAsync ?ex)" and r: "returnValue ?ex = JUndefined"
    using f by (simp_all add: new_Executor_def)
  obtain x ex1 w2 where pe: "promise_executor env ?ex args ?w0 = (x, ex1, w2)"
    by (cases "promise_executor env ?ex args ?w0") auto
  have "ex1 = ?ex"
    using promise_executor_this [of env ?ex args ?w0] pe c by (simp add: attempt_this)
  then have "execute env ?ex args ?w1 =
      (Returned JUndefined, ?ex, (case x of Thrown e \<Rightarrow> reject_promise e w2 | Returned r \<Rightarrow> w2))"
    using pe a by (simp add: execute_def Let_def)
  then show ?thesis using r by (simp add: mainCall_def Let_def)
qed

lemma instrument_prototype_flags:
  "(p, Wrapped it) \<in> set (fst (instrument_prototype lg ms w)) \<Longrightarrow>
   isConstructor it = JBool False \<and> (\<exists>b. prop_val it = JBool b)"
proof (induction lg ms w rule: instrument_prototype.induct)
  case (1 lg w)
  then show ?case by simp
next
  case (2 lg q f ms w)
  obtain it1 w1 where h: "handleFunctionUnderTest lg f (JBool (q = ''constructor'')) JUndefined w = (it1, w1)"
    by (cases "handleFunctionUnderTest lg f (JBool (q = ''constructor'')) JUndefined w") auto
  have it1: "isConstructor it1 = JBool False \<and> prop_val it1 = JBool (q = ''constructor'')"
    using h by (auto simp: handleFunctionUnderTest_def Let_def)
  show ?case
    using "2.prems" "2.IH" [OF h [symmetric]] h it1
    by (auto split: prod.splits)
next
  case (3 lg q v ms w)
  then show ?case by (auto split: prod.splits)
qed

lemma instrument_statics_flags:
  "(p, Wrapped it) \<in> set (fst (instrument_statics lg ms w)) \<Longrightarrow>
   isConstructor it = JBool False \<and> prop_val it = JUndefined"
proof (induction lg ms w rule: instrument_statics.induct)
  case (1 lg w)
  then show ?case by simp
next
  case (2 lg q f ms w)
  obtain it1 w1 where h: "handleFunctionUnderTest lg f JUndefined JUndefined w = (it1, w1)"
    by (cases "handleFunctionUnderTest lg f JUndefined JUndefined w") auto
  have it1: "isConstructor it1 = JBool False \<and> prop_val it1 = JUndefined"
    using h by (auto simp: handleFunctionUnderTest_def Let_def)
  show ?case
  proof (cases "q \<in> set ignoredStaticMethods")
    case True
    then show ?thesis using "2.prems" "2.IH"(2) by (auto split: prod.splits)
  next
    case False
    then show ?thesis using "2.prems" "2.IH"(1) [OF False h [symmetric]] h it1
      by (auto split: prod.splits)
  qed
next
  case (3 lg q v ms w)
  then show ?case by (auto split: prod.splits)
qed

text \<open>
  C1 at \<^verbatim>\<open>handleFunctionUnderTest(logger, function () { return 5 }, 'five')\<close> called with no
  argument: the callable returns 5, the interceptor returns \<^verbatim>\<open>undefined\<close>. \<^verbatim>\<open>mainCall\<close>
  passes \<^verbatim>\<open>(ent, prop, handler, isConstructor)\<close> to a constructor whose parameters are
  \<^verbatim>\<open>(method, outputHandler, construct, isAsync)\<close>: the handler lands in \<^verbatim>\<open>construct\<close>, the
  constructor path is taken and \<^verbatim>\<open>returnValue\<close> is never set.
\<close>

theorem mainCall_loses_return_value:
  "call_body returns_five [] = Return (JNum 5) \<and>
   fst (mainCall quiet_env
          (fst (handleFunctionUnderTest (JFun 1) returns_five (JStr ''five'') JUndefined empty_world))
          []
          (snd (handleFunctionUnderTest (JFun 1) returns_five (JStr ''five'') JUndefined empty_world)))
     = Returned JUndefined"
  by (simp add: exec_defs tcgen_defs returns_five_def empty_world_def quiet_env_def)

text \<open>
  C2 at the same interceptor, called twice with no argument, the logger being the external
  function 1: no function is called at all, so the logger receives nothing, the promise
  is rejected with the TypeError of calling \<^verbatim>\<open>'five'\<close> as \<^verbatim>\<open>outputHandler\<close>, and
  \<^verbatim>\<open>applyArgs\<close> holds the argument snapshots of both calls and no outcome.
\<close>

theorem mainCall_never_reaches_logger:
  "(let (it, w0) = handleFunctionUnderTest (JFun 1) returns_five (JStr ''five'') JUndefined empty_world;
        (c1, w1) = mainCall quiet_env it [] w0;
        (c2, w2) = mainCall quiet_env it [] w1
    in trace w1 = [] \<and> trace w2 = [] \<and>
       promise w1 = Rejected (TypeError ''this.outputHandler is not a function'') \<and>
       heap w1 (applyArgs it) = [JStr ''five'', JBool False, JNull, JArr []] \<and>
       heap w2 (applyArgs it) = [JStr ''five'', JBool False, JNull, JArr [], JArr []])"
  by (simp add: exec_defs tcgen_defs returns_five_def empty_world_def quiet_env_def)

text \<open>
  C7 at \<^verbatim>\<open>class C { constructor () {}; add (a, b) {}; static make () {} }\<close>: every member
  that is a function is replaced, but the interceptor of \<^verbatim>\<open>constructor\<close> has
  \<^verbatim>\<open>isConstructor = false\<close>. \<^verbatim>\<open>instrumentClass\<close> passes \<^verbatim>\<open>prop === 'constructor'\<close> as the
  third argument, which is the parameter \<^verbatim>\<open>prop\<close>; \<^verbatim>\<open>isConstructor\<close> keeps its default.
\<close>

theorem instrumentClass_constructor_flag:
  "(case fst (instrumentClass (JObj []) sample_class empty_world) of
      Some (statics, protos) \<Rightarrow>
        map (\<lambda>(p, m). (p, case m of Wrapped it \<Rightarrow> Some (prop_val it, isConstructor it) | Kept k \<Rightarrow> None))
          protos
        = [(''constructor'', Some (JBool True, JBool False)),
           (''add'', Some (JBool False, JBool False))]
    | None \<Rightarrow> False)"
  by (simp add: instrumentClass_def sample_class_def handleFunctionUnderTest_def
      ignoredStaticMethods_def Let_def)

section \<open>What the snapshot returns\<close>






















section \<open>The fixture file\<close>

text \<open>
  A JSON document that opens with a brace ends with one. So no text made of the header,
  any records and the footer is a JSON document, whatever the path and the records are.
  Each record is written to one file: after a record on one day and a record on another,
  the first file holds the header, the first record and the footer, and the second file
  the header and the second record, the footer following on \<^verbatim>\<open>stop\<close>.
\<close>

lemma after_value_cases:
  "after_value stk c = (m, stk') \<Longrightarrow>
     (m = Invalid) \<or> (is_ws c \<and> m = AfterValue \<and> stk' = stk)
     \<or> (\<not> is_ws c \<and> stk \<noteq> [] \<and> stk' = stk \<and> (m = ExpectValue \<or> m = ExpectKey))
     \<or> (\<not> is_ws c \<and> stk \<noteq> [] \<and> stk' = tl stk \<and> m = AfterValue \<and>
          ((hd stk = InArray \<and> c = CHR '']'') \<or> (hd stk = InObject \<and> c = CHR ''}'')))"
  by (auto simp: after_value_def split: if_splits list.splits jctx.splits)

lemma start_value_cases:
  "start_value stk c = (m, stk') \<Longrightarrow>
     (m = ExpectKeyOrClose \<and> stk' = InObject # stk) \<or> (m = ExpectValueOrClose \<and> stk' = InArray # stk)
     \<or> (stk' = stk \<and> m \<noteq> ExpectKeyOrClose \<and> m \<noteq> ExpectValueOrClose \<and> m \<noteq> AfterValue)"
  by (auto simp: start_value_def split: if_splits)

lemma last_tl_bottom: "stk \<noteq> [] \<Longrightarrow> last stk = InObject \<Longrightarrow> tl stk \<noteq> [] \<Longrightarrow> last (tl stk) = InObject"
  by (cases stk) auto

lemma non_ws_snoc: "non_ws (s @ [c]) = (if is_ws c then non_ws s else non_ws s @ [c])"
  by (simp add: non_ws_def)

lemma object_open_step:
  assumes inv: "object_open s st"
  shows "object_open (s @ [c]) (json_step st c)"
proof -
  obtain m stk where st: "st = (m, stk)" by (cases st) auto
  obtain ma sa where av: "after_value stk c = (ma, sa)" by (cases "after_value stk c") auto
  obtain mb sb where sv: "start_value stk c = (mb, sb)" by (cases "start_value stk c") auto
  note A = after_value_cases [OF av]
  note S = start_value_cases [OF sv]
  have pop: "stk = [] \<or> last stk \<noteq> InObject
      \<or> (tl stk \<noteq> [] \<and> last (tl stk) = InObject) \<or> (tl stk = [] \<and> hd stk = InObject)"
    by (cases stk) auto
  show ?thesis
  proof (cases m)
    case ExpectValue
    then show ?thesis using inv st sv S by (auto simp: object_open_def non_ws_snoc)
  next
    case ExpectValueOrClose
    then show ?thesis using inv st sv S pop
      by (auto simp: object_open_def non_ws_snoc)
  next
    case ExpectKeyOrClose
    then show ?thesis using inv st pop
      by (auto simp: object_open_def non_ws_snoc)
  next
    case AfterValue
    then show ?thesis using inv st av A pop
      by (auto simp: object_open_def non_ws_snoc)
  next
    case NumZero
    then show ?thesis using inv st av A pop
      by (auto simp: object_open_def non_ws_snoc)
  next
    case NumInt
    then show ?thesis using inv st av A pop
      by (auto simp: object_open_def non_ws_snoc)
  next
    case NumFrac
    then show ?thesis using inv st av A pop
      by (auto simp: object_open_def non_ws_snoc)
  next
    case NumExp
    then show ?thesis using inv st av A pop
      by (auto simp: object_open_def non_ws_snoc)
  next
    case (InLiteral r)
    then show ?thesis using inv st by (cases r) (auto simp: object_open_def non_ws_snoc)
  qed (use inv st in \<open>auto simp: object_open_def non_ws_snoc\<close>)
qed

lemma object_open_foldl:
  "object_open s st \<Longrightarrow> object_open (s @ t) (foldl json_step st t)"
proof (induction t arbitrary: s st)
  case Nil
  then show ?case by simp
next
  case (Cons c t)
  have "object_open ((s @ [c]) @ t) (foldl json_step (json_step st c) t)"
    using Cons.IH [OF object_open_step [OF Cons.prems, of c]] .
  then show ?case by simp
qed

lemma json_object_ends_with_brace:
  assumes v: "json_valid (CHR ''{'' # s)"
  shows "non_ws s \<noteq> [] \<and> last (non_ws s) = CHR ''}''"
proof -
  have i0: "object_open [] (ExpectKeyOrClose, [InObject])"
    by (simp add: object_open_def)
  have "object_open ([] @ s) (foldl json_step (ExpectKeyOrClose, [InObject]) s)"
    using object_open_foldl [OF i0] .
  moreover have "foldl json_step (ExpectValue, []) (CHR ''{'' # s)
      = foldl json_step (ExpectKeyOrClose, [InObject]) s"
    by (simp add: start_value_def is_ws_def)
  ultimately show ?thesis using v
    by (auto simp: json_valid_def object_open_def split: prod.splits)
qed

lemma header_footer_never_json:
  "\<not> json_valid (header pjoin this @ body @ footer)"
proof
  assume v: "json_valid (header pjoin this @ body @ footer)"
  obtain rest where h: "header pjoin this = CHR ''{'' # rest"
    by (simp add: header_def)
  have "non_ws (rest @ body @ footer) = non_ws (rest @ body) @ '']''"
    by (simp add: non_ws_def footer_def is_ws_def)
  moreover have "non_ws (rest @ body @ footer) \<noteq> [] \<and> last (non_ws (rest @ body @ footer)) = CHR ''}''"
    using json_object_ends_with_brace [of "rest @ body @ footer"] v h by simp
  ultimately show False by simp
qed


lemma rollover_two_files:
  assumes p: "pjoin [d, b @ join_with ''_'' (take 3 (drop 1 (split_on CHR '' '' now1)))]
              \<noteq> pjoin [d, b @ join_with ''_'' (take 3 (drop 1 (split_on CHR '' '' now2)))]"
      and a: "JSON_stringify (log_record m1 c1 i1 p1 o1) = Returned (Some ta)"
      and b: "JSON_stringify (log_record m2 c2 i2 p2 o2) = Returned (Some tb)"
  shows "(case new_FileLogger pjoin d sp b now1 no_files of
            (r1, lg1, fs1) \<Rightarrow>
              (case log pjoin render lg1 m1 c1 i1 p1 o1 now1 fs1 of
                 (r2, lg2, fs2) \<Rightarrow>
                   (case log pjoin render lg2 m2 c2 i2 p2 o2 now2 fs2 of
                      (r3, lg3, fs3) \<Rightarrow>
                        (case stop lg3 fs3 of
                           (r4, called, lg4, fs4) \<Rightarrow>
                             r1 = Returned () \<and> r2 = Returned () \<and> r3 = Returned ()
                             \<and> r4 = Returned ()
                             \<and> fs4 (pjoin [d, b @ join_with ''_'' (take 3 (drop 1 (split_on CHR '' '' now1)))])
                               = header pjoin lg1 @ CHR 0x0A # render ta @ footer
                             \<and> fs4 (pjoin [d, b @ join_with ''_'' (take 3 (drop 1 (split_on CHR '' '' now2)))])
                               = header pjoin lg1 @ CHR 0x0A # render tb @ footer))))"
proof -
  have n: "b @ join_with ''_'' (take 3 (drop 1 (split_on CHR '' '' now1)))
           \<noteq> b @ join_with ''_'' (take 3 (drop 1 (split_on CHR '' '' now2)))"
    using p by auto
  show ?thesis
    using p n a b
    by (simp add: new_FileLogger_def log_def updateWriter_def stop_def getFileName_def
        stream_write_def first_error_def header_def no_files_def Let_def)
qed

text \<open>
  A write to a stream that was ended raises the stream's error and adds nothing: a
  second \<^verbatim>\<open>stop()\<close>, or a \<^verbatim>\<open>log\<close> on the day of a \<^verbatim>\<open>stop()\<close>.
\<close>

lemma write_after_stop:
  assumes w: "writer lg = Some st"
  shows "(case stop lg fs of
            (r1, called1, lg1, fs1) \<Rightarrow>
              (case stop lg1 fs1 of
                 (r2, called2, lg2, fs2) \<Rightarrow> r2 = Thrown write_after_end \<and> fs2 = fs1))"
  using w by (simp add: stop_def stream_write_def split: prod.splits)

text \<open>
  C6 at \<^verbatim>\<open>new FileLogger('/tmp/out', 'lib', 'x')\<close> followed by \<^verbatim>\<open>stop()\<close>, on 2 November 2026.
  The closed file is the header and the footer, and it is no JSON document: the header
  ends the value of \<^verbatim>\<open>"require"\<close> without its closing quote, and nothing closes the
  object the header opens.
\<close>

theorem closed_file_is_not_json:
  \<open>(case new_FileLogger posix_join ''/tmp/out'' ''lib'' ''x''
           ''Mon Nov 02 2026 21:04:00 GMT+0000 (Coordinated Universal Time)'' no_files of
      (r, lg, fs) \<Rightarrow>
        (case stop lg fs of
           (r1, called, lg1, fs1) \<Rightarrow>
             r = Returned () \<and> r1 = Returned ()
             \<and> called
             \<and> writer lg1 = Some \<lparr>stream_path = ''/tmp/out/xNov_02_2026'', stream_ended = True\<rparr>
             \<and> fs1 ''/tmp/out/xNov_02_2026'' = header posix_join lg @ footer
             \<and> header posix_join lg = ''{"type":"unit","require":"lib/x,"tests":[''
             \<and> \<not> json_valid (fs1 ''/tmp/out/xNov_02_2026'')))\<close>
  by (simp add: new_FileLogger_def updateWriter_def stop_def getFileName_def stream_write_def
      first_error_def header_def footer_def posix_join_def no_files_def json_valid_def Let_def
      after_value_def start_value_def is_ws_def is_digit_def is_hex_def)

section \<open>Constructing a \<^verbatim>\<open>Tcgen\<close>\<close>

lemma typeof_string: "typeof v = ''string'' \<longleftrightarrow> (\<exists>s. v = JStr s)"
  by (cases v) simp_all

lemma default_destdir_segments:
  "2 \<le> length (split_on (sep plat) s) \<Longrightarrow>
   default_destdir plat s =
     Returned (JStr (path_join plat
        [tmpdir plat, MODULE_CODE plat,
         split_on (sep plat) s ! (length (split_on (sep plat) s) - 3)]))"
proof -
  assume n: "2 \<le> length (split_on (sep plat) s)"
  let ?segs = "split_on (sep plat) s"
  let ?k = "length ?segs - 3"
  have lt: "?k < length ?segs" using n by simp
  have pos: "0 < length ?segs - 1 - ?k" using n by arith
  have d: "drop ?k ?segs = ?segs ! ?k # drop (Suc ?k) ?segs"
    using lt by (simp add: Cons_nth_drop_Suc)
  obtain m where m: "length ?segs - 1 - ?k = Suc m"
    using pos by (cases "length ?segs - 1 - ?k") auto
  have "take (length ?segs - 1 - ?k) (drop ?k ?segs) = ?segs ! ?k # take m (drop (Suc ?k) ?segs)"
    using d m by simp
  then show ?thesis by (simp add: default_destdir_def Let_def)
qed

text \<open>
  What the constructor does. A \<open>config\<close> whose \<^verbatim>\<open>typeof\<close> is not \<^verbatim>\<open>'object'\<close>, or whose
  \<^verbatim>\<open>srcdir\<close> can be read and is no string, makes it throw the assertion error and leaves
  the disk as it was, no call made to it. Otherwise \<^verbatim>\<open>destdir\<close> is \<^verbatim>\<open>config.destdir\<close> when
  that is truthy, and for a \<^verbatim>\<open>srcdir\<close> of two segments or more the default is
  \<^verbatim>\<open>join(tmpdir(), name, segment)\<close> for the third segment from the end (the first of
  two). When \<^verbatim>\<open>mkdirpSync\<close> and the walk then succeed, the instance has this \<^verbatim>\<open>srcdir\<close>, this
  \<^verbatim>\<open>destdir\<close> and the walk's result as \<^verbatim>\<open>filelist\<close>.
\<close>

lemma new_Tcgen_contract:
  "(typeof config \<noteq> ''object'' \<longrightarrow>
      new_Tcgen plat config dk = (Thrown (AssertionError ''config MUST_BE_OBJECT''), dk))
   \<and> (typeof config = ''object'' \<and> get_prop config ''srcdir'' = Returned v \<and> typeof v \<noteq> ''string'' \<longrightarrow>
      new_Tcgen plat config dk = (Thrown (AssertionError ''srcdir MUST_BE_STRING''), dk))
   \<and> (typeof config = ''object'' \<and> get_prop config ''srcdir'' = Returned (JStr s)
       \<and> get_prop config ''destdir'' = Returned dd
       \<and> (truthy dd \<or> 2 \<le> length (split_on (sep plat) s))
       \<and> d = (if truthy dd then dd
               else JStr (path_join plat
                      [tmpdir plat, MODULE_CODE plat,
                       split_on (sep plat) s ! (length (split_on (sep plat) s) - 3)]))
       \<and> mkdirpSync d dk = (Returned (), dk1)
       \<and> walkSync (path_join plat) s ''.js'' [] dk1 = (Returned fls, dk2) \<longrightarrow>
      new_Tcgen plat config dk =
        (Returned \<lparr>mainModuleCodeUpper = toUpperCase (MODULE_CODE plat), srcdir = s,
                   destdir = d, filelist = fls\<rparr>, dk2))"
proof -
  have p1: "typeof config \<noteq> ''object'' \<longrightarrow>
      new_Tcgen plat config dk = (Thrown (AssertionError ''config MUST_BE_OBJECT''), dk)"
    by (simp add: new_Tcgen_def)
  have p2: "typeof config = ''object'' \<and> get_prop config ''srcdir'' = Returned v \<and> typeof v \<noteq> ''string'' \<longrightarrow>
      new_Tcgen plat config dk = (Thrown (AssertionError ''srcdir MUST_BE_STRING''), dk)"
    by (cases v) (simp_all add: new_Tcgen_def)
  have p3: "typeof config = ''object'' \<and> get_prop config ''srcdir'' = Returned (JStr s)
       \<and> get_prop config ''destdir'' = Returned dd
       \<and> (truthy dd \<or> 2 \<le> length (split_on (sep plat) s))
       \<and> d = (if truthy dd then dd
               else JStr (path_join plat
                      [tmpdir plat, MODULE_CODE plat,
                       split_on (sep plat) s ! (length (split_on (sep plat) s) - 3)]))
       \<and> mkdirpSync d dk = (Returned (), dk1)
       \<and> walkSync (path_join plat) s ''.js'' [] dk1 = (Returned fls, dk2) \<longrightarrow>
      new_Tcgen plat config dk =
        (Returned \<lparr>mainModuleCodeUpper = toUpperCase (MODULE_CODE plat), srcdir = s,
                   destdir = d, filelist = fls\<rparr>, dk2)"
    using default_destdir_segments [of plat s]
    by (auto simp: new_Tcgen_def)
  show ?thesis using p1 p2 p3 by blast
qed

text \<open>
  The lemma at a string, at \<^verbatim>\<open>{srcdir: 3}\<close> and at \<^verbatim>\<open>{srcdir: '/app/src'}\<close>.
\<close>

lemma new_Tcgen_contract_example:
  "typeof (JStr ''x'') \<noteq> ''object''
   \<and> new_Tcgen posix (JStr ''x'') sample_disk
       = (Thrown (AssertionError ''config MUST_BE_OBJECT''), sample_disk)
   \<and> get_prop (JObj [(''srcdir'', JNum 3)]) ''srcdir'' = Returned (JNum 3)
   \<and> new_Tcgen posix (JObj [(''srcdir'', JNum 3)]) sample_disk
       = (Thrown (AssertionError ''srcdir MUST_BE_STRING''), sample_disk)
   \<and> fst (new_Tcgen posix (JObj [(''srcdir'', JStr ''/app/src'')]) sample_disk)
       = Returned \<lparr>mainModuleCodeUpper = toUpperCase ''tcgen'', srcdir = ''/app/src'',
                   destdir = JStr ''/tmp/tcgen'',
                   filelist = [''/app/src/a.js'', ''/app/src/lib/b.js'']\<rparr>
   \<and> calls (snd (new_Tcgen posix (JObj [(''srcdir'', JStr ''/app/src'')]) sample_disk))
       = [Mkdirp ''/tmp/tcgen'', Readdir ''/app/src'', Stat ''/app/src/a.js'',
          Stat ''/app/src/notes.txt'', Stat ''/app/src/lib'', Readdir ''/app/src/lib'',
          Stat ''/app/src/lib/b.js'']"
proof -
  let ?cfg = "JObj [(''srcdir'', JStr ''/app/src'')]"
  let ?dk1 = "snd (mkdirpSync (JStr ''/tmp/tcgen'') sample_disk)"
  let ?dk2 = "snd (walkSync (path_join posix) ''/app/src'' ''.js'' [] ?dk1)"
  have d: "JStr ''/tmp/tcgen'' =
      (if truthy JUndefined then JUndefined
       else JStr (path_join posix
              [tmpdir posix, MODULE_CODE posix,
               split_on (sep posix) ''/app/src'' ! (length (split_on (sep posix) ''/app/src'') - 3)]))"
    by (simp add: posix_def posix_join_def)
  have m: "mkdirpSync (JStr ''/tmp/tcgen'') sample_disk = (Returned (), ?dk1)"
    by (simp add: mkdirpSync_def sample_disk_def)
  have wk: "walkSync (path_join posix) ''/app/src'' ''.js'' [] ?dk1
      = (Returned [''/app/src/a.js'', ''/app/src/lib/b.js''], ?dk2)"
    by (simp add: walkSync_def mkdirpSync_def sample_disk_def posix_def posix_join_def endsWith_def)
  have c: "calls ?dk2 = [Mkdirp ''/tmp/tcgen'', Readdir ''/app/src'', Stat ''/app/src/a.js'',
          Stat ''/app/src/notes.txt'', Stat ''/app/src/lib'', Readdir ''/app/src/lib'',
          Stat ''/app/src/lib/b.js'']"
    by (simp add: walkSync_def mkdirpSync_def sample_disk_def posix_def posix_join_def endsWith_def)
  have n: "2 \<le> length (split_on (sep posix) ''/app/src'')"
    by (simp add: posix_def)
  have g: "get_prop ?cfg ''srcdir'' = Returned (JStr ''/app/src'')
      \<and> get_prop ?cfg ''destdir'' = Returned JUndefined
      \<and> get_prop (JObj [(''srcdir'', JNum 3)]) ''srcdir'' = Returned (JNum 3)"
    by simp
  show ?thesis
    using new_Tcgen_contract [of "JStr ''x''" posix sample_disk]
      new_Tcgen_contract [of "JObj [(''srcdir'', JNum 3)]" posix sample_disk "JNum 3"]
      new_Tcgen_contract [of ?cfg posix sample_disk _ "''/app/src''" JUndefined "JStr ''/tmp/tcgen''"
        ?dk1 "[''/app/src/a.js'', ''/app/src/lib/b.js'']" ?dk2]
      d m wk c n g
    by (simp add: posix_def)
qed

text \<open>
  C10 at \<^verbatim>\<open>new Tcgen({srcdir: 'src'})\<close>, \<^verbatim>\<open>src\<close> being a directory. The argument is an object
  and its \<^verbatim>\<open>srcdir\<close> a string, and no \<^verbatim>\<open>destdir\<close> is given, yet the constructor throws
  the TypeError of \<^verbatim>\<open>path.join\<close> while it computes the default \<^verbatim>\<open>destdir\<close>, before any
  call to the disk: \<^verbatim>\<open>'src'.split(sep).slice(-3, -1)\<close> is empty and its element 0 is
  \<^verbatim>\<open>undefined\<close>. No \<^verbatim>\<open>destdir\<close> is derived and no \<^verbatim>\<open>filelist\<close> populated.
\<close>

theorem new_Tcgen_single_segment_srcdir:
  "typeof (JObj [(''srcdir'', JStr ''src'')]) = ''object'' \<and>
   get_prop (JObj [(''srcdir'', JStr ''src'')]) ''srcdir'' = Returned (JStr ''src'') \<and>
   node_at sample_disk ''src'' = Some (Dir [(''c.js'', File)]) \<and>
   new_Tcgen posix (JObj [(''srcdir'', JStr ''src'')]) sample_disk =
     (Thrown (TypeError ''The path argument must be of type string. Received undefined''),
      sample_disk)"
  by (simp add: new_Tcgen_def default_destdir_def posix_def sample_disk_def Let_def)

end
